theory Spec2Isabelle
  imports Complex_Main "HOL-Library.Char_ord" "HOL-Library.List_Lexorder"
begin

section \<open>Python values\<close>

text \<open>
  The response mapper (\<^verbatim>\<open>CimisEndpoints.parse_data_response\<close> in endpoints.py, repeated
  verbatim as \<^verbatim>\<open>CimisClient._parse_data_response\<close> in client.py) receives the result of
  \<^verbatim>\<open>response.json()\<close>: Python values built from JSON. \<^verbatim>\<open>None\<close> is \<open>JNull\<close>, a
  \<^verbatim>\<open>dict\<close> is an association list in insertion order whose keys are strings (a parsed
  object has distinct keys), a \<^verbatim>\<open>list\<close> is a list.
\<close>

datatype json = JNull | JBool bool | JInt int | JFloat real | JStr string
  | JArr "json list" | JObj "(string \<times> json) list"

text \<open>The exceptions that can leave the modelled code.\<close>

datatype error = TypeError | AttributeError | ValueError | KeyError | OSError
  | OverflowError | CimisDataError string

definition bindE :: "error + 'a \<Rightarrow> ('a \<Rightarrow> error + 'b) \<Rightarrow> error + 'b" where
  "bindE m f = (case m of Inl e \<Rightarrow> Inl e | Inr x \<Rightarrow> f x)"

text \<open>Python truthiness (\<^verbatim>\<open>if x\<close>, \<^verbatim>\<open>x or y\<close>) of such values.\<close>

fun truthy :: "json \<Rightarrow> bool" where
  "truthy JNull = False"
| "truthy (JBool b) = b"
| "truthy (JInt i) = (i \<noteq> 0)"
| "truthy (JFloat x) = (x \<noteq> 0)"
| "truthy (JStr s) = (s \<noteq> [])"
| "truthy (JArr xs) = (xs \<noteq> [])"
| "truthy (JObj kvs) = (kvs \<noteq> [])"

definition py_or :: "json \<Rightarrow> json \<Rightarrow> json" where
  "py_or a b = (if truthy a then a else b)"

text \<open>\<^verbatim>\<open>str.startswith\<close> and the substring test \<^verbatim>\<open>k in s\<close> on strings.\<close>

definition startswith :: "string \<Rightarrow> string \<Rightarrow> bool" where
  "startswith s p = (take (length p) s = p)"

fun str_contains :: "string \<Rightarrow> string \<Rightarrow> bool" where
  "str_contains [] k = (k = [])"
| "str_contains (c # s) k = (startswith (c # s) k \<or> str_contains s k)"

text \<open>
  \<^verbatim>\<open>k in v\<close> for a string \<open>k\<close>: key membership on a dict, element membership on a list,
  substring on a string, \<^verbatim>\<open>TypeError\<close> on anything else.
\<close>

fun py_contains :: "json \<Rightarrow> string \<Rightarrow> error + bool" where
  "py_contains (JObj kvs) k = Inr (map_of kvs k \<noteq> None)"
| "py_contains (JArr xs) k = Inr (JStr k \<in> set xs)"
| "py_contains (JStr s) k = Inr (str_contains s k)"
| "py_contains v k = Inl TypeError"

text \<open>\<^verbatim>\<open>v[k]\<close> for a string \<open>k\<close>, evaluated only after \<^verbatim>\<open>k in v\<close> held.\<close>

fun py_getitem :: "json \<Rightarrow> string \<Rightarrow> error + json" where
  "py_getitem (JObj kvs) k =
     (case map_of kvs k of None \<Rightarrow> Inl KeyError | Some v \<Rightarrow> Inr v)"
| "py_getitem v k = Inl TypeError"

text \<open>\<^verbatim>\<open>d.get(k, default)\<close> on a dict.\<close>

definition dict_get :: "(string \<times> 'v) list \<Rightarrow> string \<Rightarrow> 'v \<Rightarrow> 'v" where
  "dict_get d k dflt = (case map_of d k of None \<Rightarrow> dflt | Some v \<Rightarrow> v)"

text \<open>\<^verbatim>\<open>v.get(k, default)\<close> on any value: only a dict has the method.\<close>

fun py_get :: "json \<Rightarrow> string \<Rightarrow> json \<Rightarrow> error + json" where
  "py_get (JObj kvs) k dflt = Inr (dict_get kvs k dflt)"
| "py_get v k dflt = Inl AttributeError"

text \<open>
  \<^verbatim>\<open>for x in v\<close>: the elements of a list, the keys of a dict, the one-character strings
  of a string; \<^verbatim>\<open>TypeError\<close> on anything else.
\<close>

fun py_iter :: "json \<Rightarrow> error + json list" where
  "py_iter (JArr xs) = Inr xs"
| "py_iter (JObj kvs) = Inr (map (\<lambda>kv. JStr (fst kv)) kvs)"
| "py_iter (JStr s) = Inr (map (\<lambda>c. JStr [c]) s)"
| "py_iter v = Inl TypeError"

text \<open>
  \<^verbatim>\<open>d[k] = v\<close> on a dict: an existing key keeps its position and takes the new value, a
  new key is appended.
\<close>

fun dict_set :: "('k \<times> 'v) list \<Rightarrow> 'k \<Rightarrow> 'v \<Rightarrow> ('k \<times> 'v) list" where
  "dict_set [] k v = [(k, v)]"
| "dict_set (p # ps) k v = (if fst p = k then (k, v) # ps else p # dict_set ps k v)"

text \<open>
  Python's \<^verbatim>\<open>==\<close> on such values: numbers compare by value (\<^verbatim>\<open>True\<close> is 1), lists
  element by element, dicts as mappings, whatever the order of insertion. Two values are
  equal exactly when their canonical forms are the same.
\<close>

fun canon :: "json \<Rightarrow> json" where
  "canon JNull = JNull"
| "canon (JBool b) = JFloat (if b then 1 else 0)"
| "canon (JInt i) = JFloat (of_int i)"
| "canon (JFloat x) = JFloat x"
| "canon (JStr s) = JStr s"
| "canon (JArr xs) = JArr (map canon xs)"
| "canon (JObj kvs) = JObj (sort_key fst (map (\<lambda>kv. (fst kv, canon (snd kv))) kvs))"

section \<open>Data model (models.py)\<close>

text \<open>
  The dataclasses annotate their fields as strings, but nothing enforces the annotation:
  the mapper stores whatever value the response carries, so the fields hold Python values.
\<close>

record DataValue =
  "value" :: json
  qc :: json
  unit :: json

record WeatherRecord =
  date :: json
  julian :: json
  station :: json
  standard :: json
  zip_codes :: json
  scope :: json
  hour :: json
  data_values :: "(string \<times> DataValue) list"

record WeatherProvider =
  name :: json
  type :: json
  owner :: json
  records :: "WeatherRecord list"

record WeatherData =
  providers :: "WeatherProvider list"

definition get_all_records :: "WeatherData \<Rightarrow> WeatherRecord list" where
  "get_all_records weather_data = concat (map records (providers weather_data))"

text \<open>
  Equality of records, as the dataclasses define it: field by field with \<^verbatim>\<open>==\<close>, the
  \<open>data_values\<close> compared as dicts. \<^verbatim>\<open>record in records\<close> holds when the record equals
  an element of the list.
\<close>

definition data_value_key :: "DataValue \<Rightarrow> json \<times> json \<times> json" where
  "data_value_key dv = (canon (value dv), canon (qc dv), canon (unit dv))"

definition record_key ::
  "WeatherRecord \<Rightarrow> json list \<times> (string \<times> json \<times> json \<times> json) list" where
  "record_key r =
     ([canon (date r), canon (julian r), canon (station r), canon (standard r),
       canon (zip_codes r), canon (scope r), canon (hour r)],
      sort_key fst (map (\<lambda>kv. (fst kv, data_value_key (snd kv))) (data_values r)))"

definition record_eq :: "WeatherRecord \<Rightarrow> WeatherRecord \<Rightarrow> bool" where
  "record_eq r r' = (record_key r = record_key r')"

definition record_in :: "WeatherRecord \<Rightarrow> WeatherRecord list \<Rightarrow> bool" where
  "record_in record recs = list_ex (record_eq record) recs"

section \<open>Response mapper (endpoints.py, parse\_data\_response)\<close>

text \<open>The \<^verbatim>\<open>DataValue(...)\<close> built from a dict \<open>v\<close> that has a \<^verbatim>\<open>'Value'\<close> key.\<close>

definition parse_data_value :: "(string \<times> json) list \<Rightarrow> DataValue" where
  "parse_data_value v =
     \<lparr> value = dict_get v ''Value'' JNull,
       qc = dict_get v ''Qc'' (JStr '' ''),
       unit = dict_get v ''Unit'' (JStr '''') \<rparr>"

text \<open>\<^verbatim>\<open>isinstance(value, dict) and 'Value' in value\<close>.\<close>

fun is_data_item :: "json \<Rightarrow> bool" where
  "is_data_item (JObj v) = (map_of v ''Value'' \<noteq> None)"
| "is_data_item _ = False"

fun the_dict :: "json \<Rightarrow> (string \<times> json) list" where
  "the_dict (JObj v) = v"
| "the_dict _ = []"

text \<open>The loop \<^verbatim>\<open>for key, value in record_data.items()\<close> over \<open>record.data_values\<close>.\<close>

fun parse_items :: "(string \<times> json) list \<Rightarrow> (string \<times> DataValue) list \<Rightarrow> (string \<times> DataValue) list" where
  "parse_items [] dv = dv"
| "parse_items ((key, v) # rest) dv =
     (if is_data_item v
      then parse_items rest (dict_set dv key (parse_data_value (the_dict v)))
      else parse_items rest dv)"

text \<open>One record: \<^verbatim>\<open>record_data.get\<close> raises \<^verbatim>\<open>AttributeError\<close> unless it is a dict.\<close>

fun parse_record :: "json \<Rightarrow> error + WeatherRecord" where
  "parse_record (JObj rd) =
     Inr \<lparr> date = dict_get rd ''Date'' (JStr ''''),
           julian = dict_get rd ''Julian'' (JStr ''''),
           station = dict_get rd ''Station'' JNull,
           standard = dict_get rd ''Standard'' (JStr ''english''),
           zip_codes = dict_get rd ''ZipCodes'' (JStr ''''),
           scope = dict_get rd ''Scope'' (JStr ''daily''),
           hour = dict_get rd ''Hour'' JNull,
           data_values = parse_items rd [] \<rparr>"
| "parse_record _ = Inl AttributeError"

text \<open>The loop over the records of one provider, stopping at the first exception.\<close>

fun parse_records :: "json list \<Rightarrow> error + WeatherRecord list" where
  "parse_records [] = Inr []"
| "parse_records (record_data # rest) =
     bindE (parse_record record_data) (\<lambda>r.
     bindE (parse_records rest) (\<lambda>rs. Inr (r # rs)))"

fun parse_provider :: "json \<Rightarrow> error + WeatherProvider" where
  "parse_provider (JObj pd) =
     bindE (py_iter (dict_get pd ''Records'' (JArr []))) (\<lambda>rds.
     bindE (parse_records rds) (\<lambda>rs.
       Inr \<lparr> name = dict_get pd ''Name'' (JStr ''''),
             type = dict_get pd ''Type'' (JStr ''''),
             owner = dict_get pd ''Owner'' (JStr ''''),
             records = rs \<rparr>))"
| "parse_provider _ = Inl AttributeError"

fun parse_providers :: "json list \<Rightarrow> error + WeatherProvider list" where
  "parse_providers [] = Inr []"
| "parse_providers (provider_data # rest) =
     bindE (parse_provider provider_data) (\<lambda>p.
     bindE (parse_providers rest) (\<lambda>ps. Inr (p # ps)))"

definition parse_data_response :: "json \<Rightarrow> error + WeatherData" where
  "parse_data_response data =
     bindE (py_contains data ''Data'') (\<lambda>has_data.
       if \<not> has_data then Inr \<lparr> providers = [] \<rparr>
       else
         bindE (py_getitem data ''Data'') (\<lambda>d.
         bindE (py_contains d ''Providers'') (\<lambda>has_providers.
           if \<not> has_providers then Inr \<lparr> providers = [] \<rparr>
           else
             bindE (py_getitem d ''Providers'') (\<lambda>ps.
             bindE (py_iter ps) (\<lambda>pds.
             bindE (parse_providers pds) (\<lambda>provs.
               Inr \<lparr> providers = provs \<rparr>))))))"

section \<open>Exception classes (exceptions.py)\<close>

datatype exc_class = Exception_class | TypeError_class | AttributeError_class
  | ValueError_class | KeyError_class | OSError_class | ArithmeticError_class
  | OverflowError_class | CimisError_class
  | CimisAPIError_class | CimisDataError_class | CimisConnectionError_class
  | CimisAuthenticationError_class

text \<open>
  The declared base class of each class (\<^verbatim>\<open>OverflowError\<close> derives from
  \<^verbatim>\<open>ArithmeticError\<close>, the other built-in ones from \<^verbatim>\<open>Exception\<close>).
\<close>

fun base_class :: "exc_class \<Rightarrow> exc_class option" where
  "base_class Exception_class = None"
| "base_class OverflowError_class = Some ArithmeticError_class"
| "base_class CimisError_class = Some Exception_class"
| "base_class CimisAPIError_class = Some CimisError_class"
| "base_class CimisDataError_class = Some CimisError_class"
| "base_class CimisConnectionError_class = Some CimisError_class"
| "base_class CimisAuthenticationError_class = Some CimisAPIError_class"
| "base_class _ = Some Exception_class"

text \<open>The chain of classes from a class up to \<^verbatim>\<open>Exception\<close>; no chain is longer than four.\<close>

fun ancestors :: "nat \<Rightarrow> exc_class \<Rightarrow> exc_class list" where
  "ancestors 0 c = [c]"
| "ancestors (Suc n) c =
     (case base_class c of None \<Rightarrow> [c] | Some b \<Rightarrow> c # ancestors n b)"

fun class_of :: "error \<Rightarrow> exc_class" where
  "class_of TypeError = TypeError_class"
| "class_of AttributeError = AttributeError_class"
| "class_of ValueError = ValueError_class"
| "class_of KeyError = KeyError_class"
| "class_of OSError = OSError_class"
| "class_of OverflowError = OverflowError_class"
| "class_of (CimisDataError msg) = CimisDataError_class"

text \<open>Whether a handler \<^verbatim>\<open>except c\<close> catches the raised exception \<open>e\<close>.\<close>

definition caught_by :: "exc_class \<Rightarrow> error \<Rightarrow> bool" where
  "caught_by c e = (c \<in> set (ancestors 4 (class_of e)))"

section \<open>Library functions used by the CSV export\<close>

text \<open>
  \<^verbatim>\<open>str(v)\<close> and the formatting of \<^verbatim>\<open>{v}\<close> in an f-string are the identity on a string.
  The interpreter's rendering of any other value is the parameter \<open>repr\<close>.
\<close>

definition py_str :: "(json \<Rightarrow> string) \<Rightarrow> json \<Rightarrow> string" where
  "py_str repr v = (case v of JStr s \<Rightarrow> s | _ \<Rightarrow> repr v)"

definition is_digit :: "char \<Rightarrow> bool" where
  "is_digit c = (CHR ''0'' \<le> c \<and> c \<le> CHR ''9'')"

definition digit_val :: "char \<Rightarrow> nat" where
  "digit_val c = of_char c - 48"

definition digits_val :: "string \<Rightarrow> nat" where
  "digits_val s = foldl (\<lambda>n c. 10 * n + digit_val c) 0 s"

definition digit_char :: "nat \<Rightarrow> char" where
  "digit_char n = ''0123456789'' ! (n mod 10)"

definition dec2 :: "nat \<Rightarrow> string" where
  "dec2 n = [digit_char (n div 10), digit_char n]"

definition dec4 :: "nat \<Rightarrow> string" where
  "dec4 n = [digit_char (n div 1000), digit_char (n div 100), digit_char (n div 10), digit_char n]"

text \<open>
  \<^verbatim>\<open>s.zfill(width)\<close>: zeros are inserted on the left, after a leading sign if there is one.
\<close>

definition zfill :: "nat \<Rightarrow> string \<Rightarrow> string" where
  "zfill width s =
     (if width \<le> length s then s
      else case s of
        [] \<Rightarrow> replicate width (CHR ''0'')
      | c # rest \<Rightarrow>
          if c = CHR ''+'' \<or> c = CHR ''-''
          then c # replicate (width - length s) (CHR ''0'') @ rest
          else replicate (width - length s) (CHR ''0'') @ s)"

text \<open>
  \<^verbatim>\<open>int(s)\<close> on a string: surrounding whitespace is dropped (the ASCII whitespace, and
  the spaces beyond ASCII, here U+0085 and U+00A0, which the conversion first turns into
  blanks; the separators U+001C to U+001F are not dropped), one sign is allowed, the digits
  may be separated by single underscores; anything else is \<^verbatim>\<open>ValueError\<close>, and so is a
  number of more than 4300 digits (the interpreter's default limit for the conversion).
\<close>

definition is_space :: "char \<Rightarrow> bool" where
  "is_space c = ((of_char c :: nat) \<in> {9, 10, 11, 12, 13, 32, 133, 160})"

definition strip :: "string \<Rightarrow> string" where
  "strip s = rev (dropWhile is_space (rev (dropWhile is_space s)))"

fun int_digits :: "string \<Rightarrow> bool" where
  "int_digits [] = False"
| "int_digits [c] = is_digit c"
| "int_digits (c # d # rest) =
     (is_digit c \<and> (if d = CHR ''_'' then int_digits rest else int_digits (d # rest)))"

definition py_int :: "string \<Rightarrow> error + int" where
  "py_int s =
     (let t = strip s;
          negative = (t \<noteq> [] \<and> hd t = CHR ''-'');
          u = (if t \<noteq> [] \<and> (hd t = CHR ''+'' \<or> hd t = CHR ''-'') then tl t else t);
          digits = filter (\<lambda>c. c \<noteq> CHR ''_'') u
      in if int_digits u \<and> length digits \<le> 4300
         then Inr ((if negative then - 1 else 1) * int (digits_val digits))
         else Inl ValueError)"

text \<open>A \<^verbatim>\<open>datetime\<close> with zero seconds: year, month, day, hour, minute.\<close>

record datetime =
  dt_year :: nat
  dt_month :: nat
  dt_day :: nat
  dt_hour :: nat
  dt_minute :: nat

definition is_leap :: "nat \<Rightarrow> bool" where
  "is_leap y = (y mod 4 = 0 \<and> (y mod 100 \<noteq> 0 \<or> y mod 400 = 0))"

definition days_in_month :: "nat \<Rightarrow> nat \<Rightarrow> nat" where
  "days_in_month y m =
     (if m = 2 then (if is_leap y then 29 else 28)
      else if m \<in> {4, 6, 9, 11} then 30 else 31)"

text \<open>
  \<^verbatim>\<open>datetime.strptime(s, '%Y-%m-%d')\<close>: four digits, a month written 1..12 with one or
  two digits, a day written 1..31 with one or two digits (or a space and one digit), and
  nothing else; then the date must exist and its year be at least 1. A string that does
  not fit is \<^verbatim>\<open>ValueError\<close>, a value that is not a string is \<^verbatim>\<open>TypeError\<close>.
\<close>

definition month_token :: "string \<Rightarrow> bool" where
  "month_token t = (t \<noteq> [] \<and> length t \<le> 2 \<and> list_all is_digit t
                    \<and> 1 \<le> digits_val t \<and> digits_val t \<le> 12)"

definition day_token :: "string \<Rightarrow> bool" where
  "day_token t =
     ((t \<noteq> [] \<and> length t \<le> 2 \<and> list_all is_digit t
         \<and> 1 \<le> digits_val t \<and> digits_val t \<le> 31)
      \<or> (length t = 2 \<and> hd t = CHR '' '' \<and> is_digit (t ! 1) \<and> t ! 1 \<noteq> CHR ''0''))"

definition strptime_ymd :: "string \<Rightarrow> error + datetime" where
  "strptime_ymd s =
     (let y = take 4 s; r = drop 5 s;
          m = takeWhile (\<lambda>c. c \<noteq> CHR ''-'') r;
          d = drop (Suc (length m)) r
      in if length y = 4 \<and> list_all is_digit y \<and> take 1 (drop 4 s) = ''-''
            \<and> month_token m \<and> take 1 (drop (length m) r) = ''-'' \<and> day_token d
            \<and> 1 \<le> digits_val y
            \<and> digits_val (filter is_digit d) \<le> days_in_month (digits_val y) (digits_val m)
         then Inr \<lparr> dt_year = digits_val y, dt_month = digits_val m,
                    dt_day = digits_val (filter is_digit d), dt_hour = 0, dt_minute = 0 \<rparr>
         else Inl ValueError)"

fun strptime :: "json \<Rightarrow> error + datetime" where
  "strptime (JStr s) = strptime_ymd s"
| "strptime _ = Inl TypeError"

text \<open>
  \<^verbatim>\<open>date_obj.replace(hour=h, minute=m)\<close>: the arguments are first converted to C
  integers, \<^verbatim>\<open>OverflowError\<close> when one does not fit in 32 bits; then \<^verbatim>\<open>ValueError\<close>
  outside 0..23 and 0..59.
\<close>

definition c_int :: "int \<Rightarrow> bool" where
  "c_int v = (- 2147483648 \<le> v \<and> v \<le> 2147483647)"

definition replace_hm :: "datetime \<Rightarrow> int \<Rightarrow> int \<Rightarrow> error + datetime" where
  "replace_hm date_obj h m =
     (if \<not> (c_int h \<and> c_int m) then Inl OverflowError
      else if 0 \<le> h \<and> h \<le> 23 \<and> 0 \<le> m \<and> m \<le> 59
      then Inr (date_obj\<lparr> dt_hour := nat h, dt_minute := nat m \<rparr>)
      else Inl ValueError)"

definition isoformat :: "datetime \<Rightarrow> string" where
  "isoformat t = dec4 (dt_year t) @ ''-'' @ dec2 (dt_month t) @ ''-'' @ dec2 (dt_day t)
                 @ ''T'' @ dec2 (dt_hour t) @ '':'' @ dec2 (dt_minute t) @ '':00''"

text \<open>
  A \<^verbatim>\<open>pathlib.Path\<close>: the text before the final component (with its separator) and the
  final component. \<^verbatim>\<open>stem\<close> and \<^verbatim>\<open>suffix\<close> split the name at its last dot, unless that
  dot is the first or the last character; \<^verbatim>\<open>with_name\<close> raises \<^verbatim>\<open>ValueError\<close> on a path
  with an empty name.
\<close>

record Path =
  path_parent :: string
  path_name :: string

definition path_str :: "Path \<Rightarrow> string" where
  "path_str p = path_parent p @ path_name p"

fun rfind :: "string \<Rightarrow> char \<Rightarrow> nat option" where
  "rfind [] c = None"
| "rfind (x # xs) c =
     (case rfind xs c of Some i \<Rightarrow> Some (Suc i)
      | None \<Rightarrow> if x = c then Some 0 else None)"

definition suffix_of :: "Path \<Rightarrow> string" where
  "suffix_of p =
     (case rfind (path_name p) (CHR ''.'') of
        Some i \<Rightarrow> if 0 < i \<and> i < length (path_name p) - 1 then drop i (path_name p) else []
      | None \<Rightarrow> [])"

definition stem :: "Path \<Rightarrow> string" where
  "stem p =
     (case rfind (path_name p) (CHR ''.'') of
        Some i \<Rightarrow> if 0 < i \<and> i < length (path_name p) - 1 then take i (path_name p)
                  else path_name p
      | None \<Rightarrow> path_name p)"

definition with_name :: "Path \<Rightarrow> string \<Rightarrow> error + Path" where
  "with_name p n = (if path_name p = [] then Inl ValueError else Inr (p\<lparr> path_name := n \<rparr>))"

section \<open>CSV export (client.py, \_export\_records\_to\_csv)\<close>

text \<open>
  The export receives \<^verbatim>\<open>WeatherRecord\<close> objects (what \<^verbatim>\<open>get_all_records\<close> returns), so
  every \<^verbatim>\<open>hasattr(record, ...)\<close> test holds; the branches for plain dicts are not taken.
\<close>

subsection \<open>Column discovery\<close>

definition all_data_items :: "WeatherRecord list \<Rightarrow> string set" where
  "all_data_items recs = (\<Union>record \<in> set recs. set (map fst (data_values record)))"

definition keep_daily :: "string \<Rightarrow> bool" where
  "keep_daily item =
     (startswith item ''Day'' \<or> \<not> (startswith item ''Day'' \<or> startswith item ''Hly''))"

definition keep_hourly :: "string \<Rightarrow> bool" where
  "keep_hourly item =
     (startswith item ''Hly'' \<or> \<not> (startswith item ''Day'' \<or> startswith item ''Hly''))"

definition filtered_data_items :: "string \<Rightarrow> WeatherRecord list \<Rightarrow> string set" where
  "filtered_data_items scope_type recs =
     (if scope_type = ''daily'' then {item \<in> all_data_items recs. keep_daily item}
      else if scope_type = ''hourly'' then {item \<in> all_data_items recs. keep_hourly item}
      else all_data_items recs)"

definition sorted_data_items :: "string \<Rightarrow> WeatherRecord list \<Rightarrow> string list" where
  "sorted_data_items scope_type recs = sorted_list_of_set (filtered_data_items scope_type recs)"

definition base_columns :: "string \<Rightarrow> string list" where
  "base_columns scope_type =
     [''Provider_Name'', ''Provider_Type'', ''Date'', ''Julian'', ''Station'',
      ''Standard'', ''ZipCodes'', ''Scope'', ''DateTime_Object'']
     @ (if scope_type \<in> set [''hourly'', ''mixed''] then [''Hour'', ''DateTime_Full''] else [])"

definition clean_item_name :: "string \<Rightarrow> string" where
  "clean_item_name item = (if startswith item ''Hly'' then drop 3 item else item)"

definition item_columns :: "string \<Rightarrow> string list" where
  "item_columns item =
     [clean_item_name item @ ''_Value'', clean_item_name item @ ''_QC'',
      clean_item_name item @ ''_Unit'']"

definition data_columns :: "string list \<Rightarrow> string list" where
  "data_columns items = concat (map item_columns items)"

definition all_columns :: "string \<Rightarrow> WeatherRecord list \<Rightarrow> string list" where
  "all_columns scope_type recs =
     base_columns scope_type @ data_columns (sorted_data_items scope_type recs)"

subsection \<open>One row\<close>

type_synonym row = "(string \<times> json) list"

text \<open>The \<^verbatim>\<open>DateTime_Object\<close> cell; only \<^verbatim>\<open>ValueError\<close> is handled.\<close>

definition datetime_object :: "json \<Rightarrow> error + json" where
  "datetime_object record_date =
     (if truthy record_date
      then (case strptime record_date of
              Inr date_obj \<Rightarrow> Inr (JStr (isoformat date_obj))
            | Inl ValueError \<Rightarrow> Inr (py_or record_date (JStr ''''))
            | Inl e \<Rightarrow> Inl e)
      else Inr (JStr ''''))"

text \<open>
  The \<^verbatim>\<open>DateTime_Full\<close> cell: the body of the \<^verbatim>\<open>try\<close>, then the handler of
  \<^verbatim>\<open>(ValueError, TypeError)\<close>.
\<close>

definition datetime_full_try :: "(json \<Rightarrow> string) \<Rightarrow> json \<Rightarrow> json \<Rightarrow> error + json" where
  "datetime_full_try repr record_date record_hour =
     (if truthy record_date \<and> truthy record_hour
      then bindE (strptime record_date) (\<lambda>date_obj.
             let hour_str = zfill 4 (py_str repr record_hour) in
             bindE (py_int (take 2 hour_str)) (\<lambda>h.
             bindE (if 2 < length hour_str then py_int (drop 2 hour_str) else Inr 0) (\<lambda>m.
             bindE (replace_hm date_obj h m) (\<lambda>full_datetime.
               Inr (JStr (isoformat full_datetime))))))
      else Inr (JStr ''''))"

definition datetime_full :: "(json \<Rightarrow> string) \<Rightarrow> json \<Rightarrow> json \<Rightarrow> error + json" where
  "datetime_full repr record_date record_hour =
     (case datetime_full_try repr record_date record_hour of
        Inr cell \<Rightarrow> Inr cell
      | Inl e \<Rightarrow>
          if caught_by ValueError_class e \<or> caught_by TypeError_class e
          then Inr (JStr (py_str repr (py_or record_date (JStr '''')) @ '' ''
                          @ py_str repr (py_or record_hour (JStr ''''))))
          else Inl e)"

text \<open>The three cells of one data item; a \<^verbatim>\<open>DataValue\<close> object is always truthy.\<close>

definition add_item :: "WeatherRecord \<Rightarrow> row \<Rightarrow> string \<Rightarrow> row" where
  "add_item record row item =
     (let clean = clean_item_name item in
      case map_of (data_values record) item of
        Some data_value \<Rightarrow>
          dict_set (dict_set (dict_set row
            (clean @ ''_Value'') (py_or (value data_value) (JStr '''')))
            (clean @ ''_QC'') (qc data_value))
            (clean @ ''_Unit'') (unit data_value)
      | None \<Rightarrow>
          dict_set (dict_set (dict_set row
            (clean @ ''_Value'') (JStr ''''))
            (clean @ ''_QC'') (JStr ''''))
            (clean @ ''_Unit'') (JStr ''''))"

definition base_row :: "WeatherProvider \<Rightarrow> WeatherRecord \<Rightarrow> row" where
  "base_row provider record =
     [(''Provider_Name'', name provider),
      (''Provider_Type'', type provider),
      (''Date'', date record),
      (''Julian'', julian record),
      (''Station'', py_or (station record) (JStr '''')),
      (''Standard'', standard record),
      (''ZipCodes'', zip_codes record),
      (''Scope'', scope record)]"

definition hour_cells :: "(json \<Rightarrow> string) \<Rightarrow> string list \<Rightarrow> WeatherRecord \<Rightarrow> row \<Rightarrow> error + row" where
  "hour_cells repr columns record row =
     (let record_hour = py_or (hour record) (JStr '''') in
      if ''Hour'' \<in> set columns
      then (let row1 = dict_set row ''Hour'' record_hour in
            if ''DateTime_Full'' \<in> set columns
            then bindE (datetime_full repr (date record) record_hour) (\<lambda>cell.
                   Inr (dict_set row1 ''DateTime_Full'' cell))
            else Inr row1)
      else Inr row)"

definition build_row ::
  "(json \<Rightarrow> string) \<Rightarrow> string list \<Rightarrow> string list \<Rightarrow> WeatherProvider \<Rightarrow> WeatherRecord
     \<Rightarrow> error + row" where
  "build_row repr columns items provider record =
     bindE (datetime_object (date record)) (\<lambda>cell.
     bindE (hour_cells repr columns record
              (dict_set (base_row provider record) ''DateTime_Object'' cell)) (\<lambda>row.
       Inr (foldl (add_item record) row items)))"

subsection \<open>The file\<close>

text \<open>
  \<^verbatim>\<open>csv.DictWriter(csvfile, fieldnames)\<close>: \<^verbatim>\<open>writerow\<close> raises \<^verbatim>\<open>ValueError\<close> on a key that
  is no field name, and writes, for each field name in turn, the row's value (the empty
  string when the row has none). A written file is its header and its lines of cells.
\<close>

record csv_file =
  header :: "string list"
  lines :: "json list list"

definition writerow :: "string list \<Rightarrow> row \<Rightarrow> error + json list" where
  "writerow fieldnames row =
     (if list_all (\<lambda>k. k \<in> set fieldnames) (map fst row)
      then Inr (map (\<lambda>c. dict_get row c (JStr '''')) fieldnames)
      else Inl ValueError)"

text \<open>
  The loops over \<^verbatim>\<open>provider.records\<close> and \<^verbatim>\<open>weather_data.providers\<close>. \<open>out\<close> holds the
  lines written so far; an exception stops the loops and leaves them in the file.
\<close>

fun write_records ::
  "(json \<Rightarrow> string) \<Rightarrow> string list \<Rightarrow> string list \<Rightarrow> WeatherRecord list \<Rightarrow> WeatherProvider
     \<Rightarrow> WeatherRecord list \<Rightarrow> json list list \<Rightarrow> error option \<times> json list list" where
  "write_records repr columns items recs provider [] out = (None, out)"
| "write_records repr columns items recs provider (record # rest) out =
     (if \<not> record_in record recs
      then write_records repr columns items recs provider rest out
      else case bindE (build_row repr columns items provider record) (writerow columns) of
             Inl e \<Rightarrow> (Some e, out)
           | Inr line \<Rightarrow> write_records repr columns items recs provider rest (out @ [line]))"

fun write_providers ::
  "(json \<Rightarrow> string) \<Rightarrow> string list \<Rightarrow> string list \<Rightarrow> WeatherRecord list
     \<Rightarrow> WeatherProvider list \<Rightarrow> json list list \<Rightarrow> error option \<times> json list list" where
  "write_providers repr columns items recs [] out = (None, out)"
| "write_providers repr columns items recs (provider # rest) out =
     (case write_records repr columns items recs provider (records provider) out of
        (Some e, out1) \<Rightarrow> (Some e, out1)
      | (None, out1) \<Rightarrow> write_providers repr columns items recs rest out1)"

text \<open>
  The file system: the files written so far. \<open>writable\<close> tells whether creating the
  parent directory and opening the file for writing succeed; otherwise \<^verbatim>\<open>OSError\<close>
  propagates and nothing is written.
\<close>

type_synonym files = "Path \<Rightarrow> csv_file option"

definition export_records_to_csv ::
  "(json \<Rightarrow> string) \<Rightarrow> (Path \<Rightarrow> bool) \<Rightarrow> WeatherData \<Rightarrow> WeatherRecord list \<Rightarrow> Path \<Rightarrow> string
     \<Rightarrow> files \<Rightarrow> (error + string) \<times> files" where
  "export_records_to_csv repr writable weather_data recs filename scope_type fs =
     (let items = sorted_data_items scope_type recs;
          columns = all_columns scope_type recs
      in if \<not> writable filename then (Inl OSError, fs)
         else case write_providers repr columns items recs (providers weather_data) [] of
                (Some e, out) \<Rightarrow>
                  (Inl e, fs(filename \<mapsto> \<lparr> header = columns, lines = out \<rparr>))
              | (None, out) \<Rightarrow>
                  (Inr (path_str filename),
                   fs(filename \<mapsto> \<lparr> header = columns, lines = out \<rparr>)))"

section \<open>Automatic file name (utils.py, generate\_weather\_filename)\<close>

text \<open>
  \<^verbatim>\<open>sorted(set(xs))\<close> raises \<^verbatim>\<open>TypeError\<close> when a value cannot be hashed (a list or a
  dict) or when two of the values cannot be ordered: \<^verbatim>\<open>None\<close>, numbers and strings are
  ordered among themselves only.
\<close>

fun sort_class :: "json \<Rightarrow> nat option" where
  "sort_class JNull = Some 0"
| "sort_class (JBool b) = Some 1"
| "sort_class (JInt i) = Some 1"
| "sort_class (JFloat x) = Some 1"
| "sort_class (JStr s) = Some 2"
| "sort_class (JArr xs) = None"
| "sort_class (JObj kvs) = None"

definition sorted_set_raises :: "json list \<Rightarrow> bool" where
  "sorted_set_raises xs =
     (list_ex (\<lambda>x. sort_class x = None) xs
      \<or> list_ex (\<lambda>x. list_ex (\<lambda>y. sort_class x \<noteq> sort_class y) xs) xs)"

text \<open>
  The generator walks every record of every provider, collects the station labels
  (strings) and the dates, sorts both without duplicates, and builds the name from them,
  the clock and the base directory. Sorting the dates is the only step that can raise;
  the text of the name is the parameter \<open>auto_name\<close>. Nothing is written.
\<close>

definition generate_weather_filename ::
  "(WeatherData \<Rightarrow> Path) \<Rightarrow> WeatherData \<Rightarrow> error + Path" where
  "generate_weather_filename auto_name weather_data =
     (let dates = map date (get_all_records weather_data)
      in if sorted_set_raises dates then Inl TypeError else Inr (auto_name weather_data))"

section \<open>CSV export entry point (client.py, export\_to\_csv)\<close>

text \<open>
  The method once the destination is fixed (from \<^verbatim>\<open>filename = Path(filename)\<close> on).
\<close>

definition export_to_path ::
  "(json \<Rightarrow> string) \<Rightarrow> (Path \<Rightarrow> bool) \<Rightarrow> WeatherData \<Rightarrow> Path \<Rightarrow> bool
     \<Rightarrow> files \<Rightarrow> (error + string) \<times> files" where
  "export_to_path repr writable weather_data filename separate_daily_hourly fs =
     (let all_records = get_all_records weather_data;
          daily_records = filter (\<lambda>r. scope r = JStr ''daily'') all_records;
          hourly_records = filter (\<lambda>r. scope r \<noteq> JStr ''daily'' \<and> scope r = JStr ''hourly'')
                             all_records
      in if all_records = [] then (Inl (CimisDataError ''No data records to export''), fs)
         else if separate_daily_hourly \<and> daily_records \<noteq> [] \<and> hourly_records \<noteq> [] then
           (case with_name filename (stem filename @ ''_daily'' @ suffix_of filename) of
              Inl e \<Rightarrow> (Inl e, fs)
            | Inr daily_filename \<Rightarrow>
              (case with_name filename (stem filename @ ''_hourly'' @ suffix_of filename) of
                 Inl e \<Rightarrow> (Inl e, fs)
               | Inr hourly_filename \<Rightarrow>
                 (case export_records_to_csv repr writable weather_data daily_records
                         daily_filename ''daily'' fs of
                    (Inl e, fs1) \<Rightarrow> (Inl e, fs1)
                  | (Inr _, fs1) \<Rightarrow>
                    (case export_records_to_csv repr writable weather_data hourly_records
                            hourly_filename ''hourly'' fs1 of
                       (Inl e, fs2) \<Rightarrow> (Inl e, fs2)
                     | (Inr _, fs2) \<Rightarrow>
                         (Inr (''Daily: '' @ path_str daily_filename @ '', Hourly: ''
                               @ path_str hourly_filename), fs2)))))
         else if separate_daily_hourly \<and> daily_records \<noteq> [] then
           export_records_to_csv repr writable weather_data daily_records filename ''daily'' fs
         else if separate_daily_hourly \<and> hourly_records \<noteq> [] then
           export_records_to_csv repr writable weather_data hourly_records filename ''hourly'' fs
         else
           export_records_to_csv repr writable weather_data all_records filename ''mixed'' fs)"

text \<open>
  The whole method: a missing \<open>filename\<close> is generated first, before the records are
  looked at. \<open>include_all_columns\<close> is accepted and never read.
\<close>

definition export_to_csv ::
  "(json \<Rightarrow> string) \<Rightarrow> (Path \<Rightarrow> bool) \<Rightarrow> (WeatherData \<Rightarrow> Path) \<Rightarrow> WeatherData
     \<Rightarrow> Path option \<Rightarrow> bool \<Rightarrow> bool \<Rightarrow> files \<Rightarrow> (error + string) \<times> files" where
  "export_to_csv repr writable auto_name weather_data filename include_all_columns
     separate_daily_hourly fs =
     (case (case filename of
              None \<Rightarrow> generate_weather_filename auto_name weather_data
            | Some given \<Rightarrow> Inr given) of
        Inl e \<Rightarrow> (Inl e, fs)
      | Inr path \<Rightarrow> export_to_path repr writable weather_data path separate_daily_hourly fs)"

section \<open>What the specification counts\<close>

text \<open>
  The record count of a response as the specification words it: the sum of the lengths
  of the \<^verbatim>\<open>Records\<close> arrays of the provider objects under \<^verbatim>\<open>Data.Providers\<close>.
\<close>

definition spec_records_length :: "json \<Rightarrow> nat" where
  "spec_records_length p =
     (case p of
        JObj pd \<Rightarrow> (case map_of pd ''Records'' of Some (JArr rs) \<Rightarrow> length rs | _ \<Rightarrow> 0)
      | _ \<Rightarrow> 0)"

definition spec_input_providers :: "json \<Rightarrow> json list" where
  "spec_input_providers data =
     (case data of
        JObj d \<Rightarrow>
          (case map_of d ''Data'' of
             Some (JObj dd) \<Rightarrow> (case map_of dd ''Providers'' of Some (JArr ps) \<Rightarrow> ps | _ \<Rightarrow> [])
           | _ \<Rightarrow> [])
      | _ \<Rightarrow> [])"

definition spec_record_count :: "json \<Rightarrow> nat" where
  "spec_record_count data = sum_list (map spec_records_length (spec_input_providers data))"

text \<open>
  The data columns as the specification words them: one triple per cleaned item key, in
  the order of the sorted cleaned keys.
\<close>

definition spec_sorted_clean_columns :: "string \<Rightarrow> WeatherRecord list \<Rightarrow> string list" where
  "spec_sorted_clean_columns scope_type recs =
     concat (map (\<lambda>c. [c @ ''_Value'', c @ ''_QC'', c @ ''_Unit''])
       (sorted_list_of_set (clean_item_name ` filtered_data_items scope_type recs)))"

text \<open>
  For the records that the separated export leaves out: a record of scope \<^verbatim>\<open>'daily'\<close> or
  \<^verbatim>\<open>'hourly'\<close>, the data without the records of any other scope, and a file whose eighth
  column is \<^verbatim>\<open>Scope\<close> and holds \<^verbatim>\<open>'daily'\<close> or \<^verbatim>\<open>'hourly'\<close> in every line.
\<close>

definition known_scope :: "WeatherRecord \<Rightarrow> bool" where
  "known_scope r = (scope r = JStr ''daily'' \<or> scope r = JStr ''hourly'')"

definition without_other_scopes :: "WeatherData \<Rightarrow> WeatherData" where
  "without_other_scopes weather_data =
     weather_data\<lparr> providers :=
       map (\<lambda>p. p\<lparr> records := filter known_scope (records p) \<rparr>) (providers weather_data) \<rparr>"

definition scope_cells_known :: "csv_file \<Rightarrow> bool" where
  "scope_cells_known f =
     (header f ! 7 = ''Scope''
      \<and> list_all (\<lambda>line. line ! 7 = JStr ''daily'' \<or> line ! 7 = JStr ''hourly'') (lines f))"

definition known_line :: "json list \<Rightarrow> bool" where
  "known_line line = (line ! 7 = JStr ''daily'' \<or> line ! 7 = JStr ''hourly'')"

section \<open>Example data\<close>

text \<open>The response of the specification's concrete scenario, and what the mapper makes of it.\<close>

definition eto_record_data :: "(string \<times> json) list" where
  "eto_record_data =
     [(''Date'', JStr ''2023-01-01''), (''Julian'', JStr ''1''), (''Station'', JStr ''2''),
      (''Scope'', JStr ''daily''),
      (''day-eto'', JObj [(''Value'', JStr ''0.12''), (''Qc'', JStr '' ''), (''Unit'', JStr ''in'')]),
      (''note'', JObj [(''Text'', JStr ''checked'')])]"

definition eto_payload :: json where
  "eto_payload =
     JObj [(''Data'', JObj [(''Providers'', JArr [JObj
       [(''Name'', JStr ''N''), (''Type'', JStr ''station''), (''Owner'', JStr ''O''),
        (''Records'', JArr [JObj eto_record_data])]])])]"

definition eto_record :: WeatherRecord where
  "eto_record =
     \<lparr> date = JStr ''2023-01-01'', julian = JStr ''1'', station = JStr ''2'',
       standard = JStr ''english'', zip_codes = JStr '''', scope = JStr ''daily'',
       hour = JNull,
       data_values = [(''day-eto'', \<lparr> value = JStr ''0.12'', qc = JStr '' '', unit = JStr ''in'' \<rparr>)] \<rparr>"

definition eto_weather_data :: WeatherData where
  "eto_weather_data =
     \<lparr> providers = [\<lparr> name = JStr ''N'', type = JStr ''station'', owner = JStr ''O'',
                       records = [eto_record] \<rparr>] \<rparr>"

definition hourly_record_data :: "(string \<times> json) list" where
  "hourly_record_data =
     [(''Date'', JStr ''2023-01-01''), (''Julian'', JStr ''1''), (''Station'', JStr ''2''),
      (''Scope'', JStr ''hourly''), (''Hour'', JStr ''0130''),
      (''HlyAirTmp'', JObj [(''Value'', JStr ''48.9''), (''Qc'', JStr '' ''), (''Unit'', JStr ''(F)'')])]"

definition hourly_tmp_record :: WeatherRecord where
  "hourly_tmp_record =
     \<lparr> date = JStr ''2023-01-01'', julian = JStr ''1'', station = JStr ''2'',
       standard = JStr ''english'', zip_codes = JStr '''', scope = JStr ''hourly'',
       hour = JStr ''0130'',
       data_values = [(''HlyAirTmp'', \<lparr> value = JStr ''48.9'', qc = JStr '' '', unit = JStr ''(F)'' \<rparr>)] \<rparr>"

definition daily_tmp_record :: WeatherRecord where
  "daily_tmp_record =
     \<lparr> date = JStr ''2023-01-01'', julian = JStr ''1'', station = JStr ''2'',
       standard = JStr ''english'', zip_codes = JStr '''', scope = JStr ''daily'',
       hour = JNull,
       data_values = [(''DayAirTmpAvg'', \<lparr> value = JStr ''51.2'', qc = JStr '' '', unit = JStr ''(F)'' \<rparr>)] \<rparr>"

text \<open>A response whose only record says \<^verbatim>\<open>"Scope": "hourly"\<close> and has no \<^verbatim>\<open>"Hour"\<close>.\<close>

definition hourly_no_hour_payload :: json where
  "hourly_no_hour_payload =
     JObj [(''Data'', JObj [(''Providers'', JArr [JObj
       [(''Records'', JArr [JObj [(''Date'', JStr ''2023-01-01''), (''Scope'', JStr ''hourly'')]])]])])]"

definition hourly_no_hour_record :: WeatherRecord where
  "hourly_no_hour_record =
     \<lparr> date = JStr ''2023-01-01'', julian = JStr '''', station = JNull,
       standard = JStr ''english'', zip_codes = JStr '''', scope = JStr ''hourly'',
       hour = JNull, data_values = [] \<rparr>"

text \<open>
  For examples in which every value is a string, the rendering of other values is never
  consulted; every destination can be written.
\<close>

definition repr_unused :: "json \<Rightarrow> string" where
  "repr_unused v = []"

definition all_writable :: "Path \<Rightarrow> bool" where
  "all_writable p = True"

definition auto_out_csv :: "WeatherData \<Rightarrow> Path" where
  "auto_out_csv weather_data = \<lparr> path_parent = ''out/'', path_name = ''weather.csv'' \<rparr>"

definition out_csv :: Path where
  "out_csv = \<lparr> path_parent = ''out/'', path_name = ''weather.csv'' \<rparr>"

definition no_records_data :: WeatherData where
  "no_records_data =
     \<lparr> providers = [\<lparr> name = JStr ''N'', type = JStr ''station'', owner = JStr ''O'',
                       records = [] \<rparr>] \<rparr>"

definition bad_hour_record :: WeatherRecord where
  "bad_hour_record =
     \<lparr> date = JStr ''2023-01-01'', julian = JStr ''1'', station = JStr ''2'',
       standard = JStr ''english'', zip_codes = JStr '''', scope = JStr ''hourly'',
       hour = JStr ''abcd'',
       data_values = [(''HlyAirTmp'', \<lparr> value = JStr ''48.9'', qc = JStr '' '', unit = JStr ''(F)'' \<rparr>)] \<rparr>"

text \<open>An hour whose minute part is 2147483648, one more than the largest C integer.\<close>

definition overflow_hour_record :: WeatherRecord where
  "overflow_hour_record =
     \<lparr> date = JStr ''2023-01-01'', julian = JStr ''1'', station = JStr ''2'',
       standard = JStr ''english'', zip_codes = JStr '''', scope = JStr ''hourly'',
       hour = JStr ''002147483648'',
       data_values = [(''HlyAirTmp'', \<lparr> value = JStr ''48.9'', qc = JStr '' '', unit = JStr ''(F)'' \<rparr>)] \<rparr>"

definition station_provider :: WeatherProvider where
  "station_provider = \<lparr> name = JStr ''N'', type = JStr ''station'', owner = JStr ''O'', records = [] \<rparr>"

definition bad_hour_data :: WeatherData where
  "bad_hour_data =
     \<lparr> providers = [\<lparr> name = JStr ''N'', type = JStr ''station'', owner = JStr ''O'',
                       records = [bad_hour_record] \<rparr>] \<rparr>"

definition weekly_record :: WeatherRecord where
  "weekly_record =
     \<lparr> date = JInt 20230101, julian = JStr ''1'', station = JStr ''2'',
       standard = JStr ''english'', zip_codes = JStr '''', scope = JStr ''weekly'',
       hour = JNull,
       data_values = [(''WkAirTmpAvg'', \<lparr> value = JStr ''50.0'', qc = JStr '' '', unit = JStr ''(F)'' \<rparr>)] \<rparr>"

definition mixed_scope_data :: WeatherData where
  "mixed_scope_data =
     \<lparr> providers = [\<lparr> name = JStr ''N'', type = JStr ''station'', owner = JStr ''O'',
                       records = [daily_tmp_record, weekly_record] \<rparr>] \<rparr>"

text \<open>The same data with a \<^verbatim>\<open>'weekly'\<close> record whose date is a string.\<close>

definition weekly_dated_record :: WeatherRecord where
  "weekly_dated_record =
     \<lparr> date = JStr ''2023-01-08'', julian = JStr ''8'', station = JStr ''2'',
       standard = JStr ''english'', zip_codes = JStr '''', scope = JStr ''weekly'',
       hour = JNull,
       data_values = [(''WkAirTmpAvg'', \<lparr> value = JStr ''50.0'', qc = JStr '' '', unit = JStr ''(F)'' \<rparr>)] \<rparr>"

definition mixed_scope_dated_data :: WeatherData where
  "mixed_scope_dated_data =
     \<lparr> providers = [\<lparr> name = JStr ''N'', type = JStr ''station'', owner = JStr ''O'',
                       records = [daily_tmp_record, weekly_dated_record] \<rparr>] \<rparr>"

definition daily_only_file :: csv_file where
  "daily_only_file =
     \<lparr> header = [''Provider_Name'', ''Provider_Type'', ''Date'', ''Julian'', ''Station'',
                  ''Standard'', ''ZipCodes'', ''Scope'', ''DateTime_Object'',
                  ''DayAirTmpAvg_Value'', ''DayAirTmpAvg_QC'', ''DayAirTmpAvg_Unit''],
       lines = [[JStr ''N'', JStr ''station'', JStr ''2023-01-01'', JStr ''1'', JStr ''2'',
                 JStr ''english'', JStr [], JStr ''daily'', JStr ''2023-01-01T00:00:00'',
                 JStr ''51.2'', JStr '' '', JStr ''(F)'']] \<rparr>"

definition both_keys_record :: WeatherRecord where
  "both_keys_record =
     \<lparr> date = JStr ''2023-01-01'', julian = JStr ''1'', station = JStr ''2'',
       standard = JStr ''english'', zip_codes = JStr '''', scope = JStr ''hourly'',
       hour = JStr ''0130'',
       data_values = [(''AirTmp'', \<lparr> value = JStr ''1'', qc = JStr ''A'', unit = JStr ''(C)'' \<rparr>),
                      (''HlyAirTmp'', \<lparr> value = JStr ''2'', qc = JStr ''B'', unit = JStr ''(F)'' \<rparr>)] \<rparr>"

definition untagged_only_record :: WeatherRecord where
  "untagged_only_record =
     \<lparr> date = JStr ''2023-01-01'', julian = JStr ''1'', station = JStr ''2'',
       standard = JStr ''english'', zip_codes = JStr '''', scope = JStr ''hourly'',
       hour = JStr ''0230'',
       data_values = [(''AirTmp'', \<lparr> value = JStr ''3'', qc = JStr ''A'', unit = JStr ''(C)'' \<rparr>)] \<rparr>"

definition colliding_data :: WeatherData where
  "colliding_data =
     \<lparr> providers = [\<lparr> name = JStr ''N'', type = JStr ''station'', owner = JStr ''O'',
                       records = [both_keys_record, untagged_only_record] \<rparr>] \<rparr>"

section \<open>Properties of the response mapper\<close>

lemma bindE_Inr_iff: "bindE m f = Inr y \<longleftrightarrow> (\<exists>x. m = Inr x \<and> f x = Inr y)"
  by (cases m) (simp_all add: bindE_def)

lemma map_of_dict_set: "map_of (dict_set d k v) = (map_of d)(k \<mapsto> v)"
  by (induction d) (auto simp: fun_eq_iff)

lemma eto_payload_parsed: "parse_data_response eto_payload = Inr eto_weather_data"
  by (simp add: eto_payload_def eto_weather_data_def eto_record_def eto_record_data_def
        parse_data_response_def bindE_def dict_get_def parse_data_value_def)




lemma map_of_parse_items:
  "distinct (map fst rd) \<Longrightarrow>
   map_of (parse_items rd dv) K =
     (case map_of rd K of
        Some v \<Rightarrow> if is_data_item v then Some (parse_data_value (the_dict v)) else map_of dv K
      | None \<Rightarrow> map_of dv K)"
proof (induction rd arbitrary: dv)
  case Nil
  then show ?case by simp
next
  case (Cons p rest)
  obtain key v where p: "p = (key, v)" by (cases p)
  from Cons.prems p have notin: "map_of rest key = None" and d: "distinct (map fst rest)"
    by (auto simp: map_of_eq_None_iff)
  show ?case
    using Cons.IH[OF d] notin p by (auto simp: map_of_dict_set split: option.splits)
qed

text \<open>
  C2. For a record object (a dict, so with distinct keys) the mapper returns a record
  whose \<open>data_values\<close> hold a key \<open>K\<close> exactly when the value under \<open>K\<close> is an object
  with a \<^verbatim>\<open>'Value'\<close> key; the entry stored under \<open>K\<close> carries that \<^verbatim>\<open>'Value'\<close>, the
  object's \<^verbatim>\<open>'Qc'\<close> (a single space when absent) and its \<^verbatim>\<open>'Unit'\<close> (the empty string
  when absent). Anything else, an object without \<^verbatim>\<open>'Value'\<close> included, gives no entry.
\<close>

theorem parse_record_data_values:
  assumes "distinct (map fst rd)"
  shows "\<exists>r. parse_record (JObj rd) = Inr r \<and>
     (\<forall>K. map_of (data_values r) K =
        (case map_of rd K of
           Some (JObj v) \<Rightarrow>
             (case map_of v ''Value'' of
                Some x \<Rightarrow>
                  Some \<lparr> value = x,
                         qc = (case map_of v ''Qc'' of None \<Rightarrow> JStr '' '' | Some q \<Rightarrow> q),
                         unit = (case map_of v ''Unit'' of None \<Rightarrow> JStr [] | Some u \<Rightarrow> u) \<rparr>
              | None \<Rightarrow> None)
         | _ \<Rightarrow> None))"
  using assms
  by (auto simp: map_of_parse_items parse_data_value_def dict_get_def
           split: option.splits json.splits)

theorem parse_record_data_values_witness:
  "distinct (map fst eto_record_data)
   \<and> (\<exists>r. parse_record (JObj eto_record_data) = Inr r
          \<and> map_of (data_values r) ''day-eto''
              = Some \<lparr> value = JStr ''0.12'', qc = JStr '' '', unit = JStr ''in'' \<rparr>
          \<and> map_of (data_values r) ''note'' = None
          \<and> map_of (data_values r) ''Date'' = None)"
proof -
  have h: "distinct (map fst eto_record_data)"
    by (simp add: eto_record_data_def)
  from parse_record_data_values [OF h] obtain r where
    r: "parse_record (JObj eto_record_data) = Inr r"
    and K: "\<And>K. map_of (data_values r) K =
        (case map_of eto_record_data K of
           Some (JObj v) \<Rightarrow>
             (case map_of v ''Value'' of
                Some x \<Rightarrow>
                  Some \<lparr> value = x,
                         qc = (case map_of v ''Qc'' of None \<Rightarrow> JStr '' '' | Some q \<Rightarrow> q),
                         unit = (case map_of v ''Unit'' of None \<Rightarrow> JStr [] | Some u \<Rightarrow> u) \<rparr>
              | None \<Rightarrow> None)
         | _ \<Rightarrow> None)"
    by blast
  have "map_of (data_values r) ''day-eto''
          = Some \<lparr> value = JStr ''0.12'', qc = JStr '' '', unit = JStr ''in'' \<rparr>"
    and "map_of (data_values r) ''note'' = None"
    and "map_of (data_values r) ''Date'' = None"
    by (simp_all add: K eto_record_data_def)
  with h r show ?thesis by blast
qed

lemma parse_records_length: "parse_records rds = Inr rs \<Longrightarrow> length rs = length rds"
  by (induction rds arbitrary: rs) (auto simp: bindE_Inr_iff)

lemma parse_records_strs:
  "parse_records (map (\<lambda>x. JStr (f x)) xs) = Inr rs \<Longrightarrow> xs = [] \<and> rs = []"
  by (cases xs) (auto simp: bindE_def)

lemma parse_providers_strs:
  "parse_providers (map (\<lambda>x. JStr (f x)) xs) = Inr rs \<Longrightarrow> xs = [] \<and> rs = []"
  by (cases xs) (auto simp: bindE_def)

lemma parse_provider_length:
  "parse_provider p = Inr prov \<Longrightarrow> length (records prov) = spec_records_length p"
proof (cases p)
  case (JObj pd)
  assume a: "parse_provider p = Inr prov"
  then obtain rds rs where it: "py_iter (dict_get pd ''Records'' (JArr [])) = Inr rds"
    and pr: "parse_records rds = Inr rs" and prov: "records prov = rs"
    using JObj by (auto simp: bindE_Inr_iff)
  show ?thesis
  proof (cases "dict_get pd ''Records'' (JArr [])")
    case (JArr xs)
    with it pr prov JObj show ?thesis
      by (auto simp: spec_records_length_def dict_get_def dest: parse_records_length
               split: option.splits)
  next
    case (JObj kvs)
    with it pr prov \<open>p = JObj pd\<close> show ?thesis
      by (auto simp: spec_records_length_def dict_get_def dest: parse_records_strs
               split: option.splits)
  next
    case (JStr s)
    with it pr prov \<open>p = JObj pd\<close> show ?thesis
      by (auto simp: spec_records_length_def dict_get_def dest: parse_records_strs
               split: option.splits)
  qed (use it in auto)
qed auto

lemma parse_providers_length:
  "parse_providers pds = Inr provs \<Longrightarrow>
   length (concat (map records provs)) = sum_list (map spec_records_length pds)"
  by (induction pds arbitrary: provs) (auto simp: bindE_Inr_iff parse_provider_length)

text \<open>
  C7. Whenever the mapper returns, the number of records obtained by flattening the
  providers of its result equals the sum of the lengths of the \<^verbatim>\<open>Records\<close> arrays of
  the provider objects of the response.
\<close>

theorem parse_data_response_record_count:
  assumes "parse_data_response data = Inr wd"
  shows "length (get_all_records wd) = spec_record_count data"
proof (cases data)
  case (JObj d)
  show ?thesis
  proof (cases "map_of d ''Data''")
    case None
    with assms JObj show ?thesis
      by (auto simp: parse_data_response_def bindE_def get_all_records_def
            spec_record_count_def spec_input_providers_def)
  next
    case (Some dv)
    show ?thesis
    proof (cases dv)
      case (JObj dd)
      show ?thesis
      proof (cases "map_of dd ''Providers''")
        case None
        with assms \<open>data = JObj d\<close> Some JObj show ?thesis
          by (auto simp: parse_data_response_def bindE_def get_all_records_def
                spec_record_count_def spec_input_providers_def)
      next
        case (Some ps)
        with assms \<open>data = JObj d\<close> \<open>map_of d ''Data'' = Some dv\<close> JObj
        obtain pds provs where it: "py_iter ps = Inr pds"
          and pp: "parse_providers pds = Inr provs" and wd: "wd = \<lparr> providers = provs \<rparr>"
          by (auto simp: parse_data_response_def bindE_Inr_iff)
        have "length (concat (map records provs))
                = sum_list (map spec_records_length (spec_input_providers data))"
        proof (cases ps)
          case (JArr xs)
          with it pp \<open>data = JObj d\<close> \<open>map_of d ''Data'' = Some dv\<close> JObj Some
          show ?thesis
            by (auto simp: spec_input_providers_def dest: parse_providers_length)
        next
          case (JObj kvs)
          with it pp \<open>data = JObj d\<close> \<open>map_of d ''Data'' = Some dv\<close> \<open>dv = JObj dd\<close> Some
          show ?thesis
            by (auto simp: spec_input_providers_def dest: parse_providers_strs)
        next
          case (JStr s)
          with it pp \<open>data = JObj d\<close> \<open>map_of d ''Data'' = Some dv\<close> \<open>dv = JObj dd\<close> Some
          show ?thesis
            by (auto simp: spec_input_providers_def dest: parse_providers_strs)
        qed (use it in auto)
        with wd show ?thesis by (simp add: get_all_records_def spec_record_count_def)
      qed
    qed (use assms \<open>data = JObj d\<close> Some in
          \<open>auto simp: parse_data_response_def bindE_def get_all_records_def
            spec_record_count_def spec_input_providers_def split: if_splits\<close>)
  qed
qed (use assms in \<open>auto simp: parse_data_response_def bindE_def get_all_records_def
            spec_record_count_def spec_input_providers_def split: if_splits\<close>)

theorem parse_data_response_record_count_witness:
  "parse_data_response eto_payload = Inr eto_weather_data
   \<and> length (get_all_records eto_weather_data) = spec_record_count eto_payload
   \<and> spec_record_count eto_payload = 1"
proof -
  have h: "parse_data_response eto_payload = Inr eto_weather_data"
    by (rule eto_payload_parsed)
  have "spec_record_count eto_payload = 1"
    by (simp add: spec_record_count_def spec_input_providers_def spec_records_length_def
          eto_payload_def)
  with h parse_data_response_record_count [OF h] show ?thesis by simp
qed

lemma hourly_no_hour_parsed:
  "parse_data_response hourly_no_hour_payload
     = Inr \<lparr> providers = [\<lparr> name = JStr '''', type = JStr '''', owner = JStr '''',
                             records = [hourly_no_hour_record] \<rparr>] \<rparr>"
  by (simp add: hourly_no_hour_payload_def hourly_no_hour_record_def
        parse_data_response_def bindE_def dict_get_def)

text \<open>
  C8 as stated (hour present iff scope is \<^verbatim>\<open>'hourly'\<close>) fails: the mapper turns a record
  object with \<^verbatim>\<open>"Scope": "hourly"\<close> and no \<^verbatim>\<open>"Hour"\<close> into a record of scope
  \<^verbatim>\<open>'hourly'\<close> whose hour is \<^verbatim>\<open>None\<close>.
\<close>

theorem mapper_hour_scope_counterexample:
  "parse_data_response hourly_no_hour_payload
     = Inr \<lparr> providers = [\<lparr> name = JStr '''', type = JStr '''', owner = JStr '''',
                             records = [hourly_no_hour_record] \<rparr>] \<rparr>
   \<and> scope hourly_no_hour_record = JStr ''hourly''
   \<and> hour hourly_no_hour_record = JNull"
  using hourly_no_hour_parsed by (simp add: hourly_no_hour_record_def)

text \<open>
  C8, amended. The mapper reads the two fields independently: the hour of the record is
  present exactly when the record object carries a non-null \<^verbatim>\<open>'Hour'\<close>, and its scope is
  \<^verbatim>\<open>'hourly'\<close> exactly when the object's \<^verbatim>\<open>'Scope'\<close> is. So "hour present iff scope
  hourly" holds of a record exactly when it holds of the object it was read from.
\<close>

theorem parse_record_hour_scope:
  assumes "parse_record (JObj rd) = Inr r"
  shows "(hour r \<noteq> JNull \<longleftrightarrow> (\<exists>h. map_of rd ''Hour'' = Some h \<and> h \<noteq> JNull))
       \<and> (scope r = JStr ''hourly'' \<longleftrightarrow> map_of rd ''Scope'' = Some (JStr ''hourly''))
       \<and> ((hour r \<noteq> JNull \<longleftrightarrow> scope r = JStr ''hourly'')
            \<longleftrightarrow> ((\<exists>h. map_of rd ''Hour'' = Some h \<and> h \<noteq> JNull)
                  \<longleftrightarrow> map_of rd ''Scope'' = Some (JStr ''hourly'')))"
proof -
  have a: "hour r \<noteq> JNull \<longleftrightarrow> (\<exists>h. map_of rd ''Hour'' = Some h \<and> h \<noteq> JNull)"
    using assms by (auto simp: dict_get_def split: option.splits)
  have b: "scope r = JStr ''hourly'' \<longleftrightarrow> map_of rd ''Scope'' = Some (JStr ''hourly'')"
    using assms by (auto simp: dict_get_def split: option.splits)
  show ?thesis
    by (simp only: a b simp_thms)
qed

lemma hourly_record_parsed: "parse_record (JObj hourly_record_data) = Inr hourly_tmp_record"
  by (simp add: hourly_record_data_def hourly_tmp_record_def dict_get_def parse_data_value_def)

theorem parse_record_hour_scope_witness:
  "parse_record (JObj hourly_record_data) = Inr hourly_tmp_record
   \<and> hour hourly_tmp_record \<noteq> JNull
   \<and> map_of hourly_record_data ''Hour'' = Some (JStr ''0130'')
   \<and> scope hourly_tmp_record = JStr ''hourly''
   \<and> map_of hourly_record_data ''Scope'' = Some (JStr ''hourly'')"
proof -
  have h: "parse_record (JObj hourly_record_data) = Inr hourly_tmp_record"
    by (rule hourly_record_parsed)
  show ?thesis
    using h parse_record_hour_scope [OF h]
    by (simp add: hourly_record_data_def hourly_tmp_record_def)
qed

section \<open>Properties of the column discovery\<close>

lemma finite_all_data_items [simp]: "finite (all_data_items recs)"
  by (simp add: all_data_items_def)

lemma finite_filtered_data_items [simp]: "finite (filtered_data_items st recs)"
  by (simp add: filtered_data_items_def)

lemma all_data_items_code:
  "all_data_items recs = set (concat (map (\<lambda>r. map fst (data_values r)) recs))"
  by (auto simp: all_data_items_def)

lemma filtered_data_items_code:
  "filtered_data_items st recs =
     set (filter (\<lambda>item. if st = ''daily'' then keep_daily item
                          else if st = ''hourly'' then keep_hourly item else True)
            (concat (map (\<lambda>r. map fst (data_values r)) recs)))"
  by (auto simp: filtered_data_items_def all_data_items_code)

lemma sorted_data_items_code:
  "sorted_data_items st recs =
     sort (remdups (filter (\<lambda>item. if st = ''daily'' then keep_daily item
                          else if st = ''hourly'' then keep_hourly item else True)
            (concat (map (\<lambda>r. map fst (data_values r)) recs))))"
  unfolding sorted_data_items_def filtered_data_items_code
  by (rule sorted_list_of_set_sort_remdups)

lemma set_sorted_data_items [simp]:
  "set (sorted_data_items st recs) = filtered_data_items st recs"
  by (simp add: sorted_data_items_def)

lemma set_data_columns:
  "set (data_columns items) = (\<Union>item \<in> set items. set (item_columns item))"
  by (simp add: data_columns_def)

text \<open>
  C6. The item keys (and so the data columns) kept in daily mode together with those kept
  in hourly mode cover those kept in mixed mode, and an item key that starts with neither
  \<^verbatim>\<open>'Day'\<close> nor \<^verbatim>\<open>'Hly'\<close> is kept, with its three columns, in daily mode and in hourly
  mode.
\<close>

theorem mode_filtering_partition:
  "filtered_data_items ''mixed'' recs
     \<subseteq> filtered_data_items ''daily'' recs \<union> filtered_data_items ''hourly'' recs
   \<and> set (data_columns (sorted_data_items ''mixed'' recs))
     \<subseteq> set (data_columns (sorted_data_items ''daily'' recs))
       \<union> set (data_columns (sorted_data_items ''hourly'' recs))
   \<and> (\<forall>item \<in> all_data_items recs.
        \<not> startswith item ''Day'' \<and> \<not> startswith item ''Hly'' \<longrightarrow>
          item \<in> filtered_data_items ''daily'' recs
          \<and> item \<in> filtered_data_items ''hourly'' recs
          \<and> set (item_columns item) \<subseteq> set (data_columns (sorted_data_items ''daily'' recs))
          \<and> set (item_columns item) \<subseteq> set (data_columns (sorted_data_items ''hourly'' recs)))"
proof -
  have sub: "filtered_data_items ''mixed'' recs
     \<subseteq> filtered_data_items ''daily'' recs \<union> filtered_data_items ''hourly'' recs"
    by (auto simp: filtered_data_items_def keep_daily_def keep_hourly_def)
  then have cols: "set (data_columns (sorted_data_items ''mixed'' recs))
     \<subseteq> set (data_columns (sorted_data_items ''daily'' recs))
       \<union> set (data_columns (sorted_data_items ''hourly'' recs))"
    by (auto simp: set_data_columns)
  have untagged: "\<forall>item \<in> all_data_items recs.
        \<not> startswith item ''Day'' \<and> \<not> startswith item ''Hly'' \<longrightarrow>
          item \<in> filtered_data_items ''daily'' recs
          \<and> item \<in> filtered_data_items ''hourly'' recs
          \<and> set (item_columns item) \<subseteq> set (data_columns (sorted_data_items ''daily'' recs))
          \<and> set (item_columns item) \<subseteq> set (data_columns (sorted_data_items ''hourly'' recs))"
    by (auto simp: filtered_data_items_def keep_daily_def keep_hourly_def set_data_columns)
  from sub cols untagged show ?thesis by blast
qed

theorem mode_filtering_partition_witness:
  "''day-eto'' \<in> all_data_items [daily_tmp_record, hourly_tmp_record, eto_record]
   \<and> \<not> startswith ''day-eto'' ''Day'' \<and> \<not> startswith ''day-eto'' ''Hly''
   \<and> ''day-eto'' \<in> filtered_data_items ''daily'' [daily_tmp_record, hourly_tmp_record, eto_record]
   \<and> ''day-eto'' \<in> filtered_data_items ''hourly'' [daily_tmp_record, hourly_tmp_record, eto_record]
   \<and> ''HlyAirTmp'' \<in> filtered_data_items ''mixed'' [daily_tmp_record, hourly_tmp_record, eto_record]
   \<and> ''HlyAirTmp'' \<in> filtered_data_items ''daily'' [daily_tmp_record, hourly_tmp_record, eto_record]
                       \<union> filtered_data_items ''hourly'' [daily_tmp_record, hourly_tmp_record, eto_record]"
proof -
  let ?recs = "[daily_tmp_record, hourly_tmp_record, eto_record]"
  have h1: "''day-eto'' \<in> all_data_items ?recs"
    by (simp add: all_data_items_code eto_record_def)
  have h2: "\<not> startswith ''day-eto'' ''Day'' \<and> \<not> startswith ''day-eto'' ''Hly''"
    by (simp add: startswith_def)
  have h3: "''HlyAirTmp'' \<in> filtered_data_items ''mixed'' ?recs"
    by (simp add: filtered_data_items_code hourly_tmp_record_def)
  from mode_filtering_partition [of ?recs] h1 h2 h3 show ?thesis
    by blast
qed

text \<open>
  C3 as stated (triples in the order of the sorted \<^emph>\<open>cleaned\<close> keys, not of the original
  keys) fails in mixed mode: for the keys \<^verbatim>\<open>DayAirTmpAvg\<close> and \<^verbatim>\<open>HlyAirTmp\<close> the export
  emits the \<^verbatim>\<open>DayAirTmpAvg\<close> triple before the \<^verbatim>\<open>AirTmp\<close> triple, the order of the
  original keys, while the sorted cleaned keys put \<^verbatim>\<open>AirTmp\<close> first.
\<close>

theorem data_columns_order_counterexample:
  "data_columns (sorted_data_items ''mixed'' [daily_tmp_record, hourly_tmp_record])
     = [''DayAirTmpAvg_Value'', ''DayAirTmpAvg_QC'', ''DayAirTmpAvg_Unit'',
        ''AirTmp_Value'', ''AirTmp_QC'', ''AirTmp_Unit'']
   \<and> spec_sorted_clean_columns ''mixed'' [daily_tmp_record, hourly_tmp_record]
     = [''AirTmp_Value'', ''AirTmp_QC'', ''AirTmp_Unit'',
        ''DayAirTmpAvg_Value'', ''DayAirTmpAvg_QC'', ''DayAirTmpAvg_Unit'']"
  apply (simp add: sorted_data_items_code spec_sorted_clean_columns_def filtered_data_items_code)
  apply (simp add: daily_tmp_record_def hourly_tmp_record_def sorted_list_of_set_sort_remdups)
  apply (simp add: data_columns_def item_columns_def clean_item_name_def startswith_def)
  done

lemma daily_no_hly:
  "item \<in> filtered_data_items ''daily'' recs \<Longrightarrow> clean_item_name item = item"
  by (auto simp: filtered_data_items_def keep_daily_def clean_item_name_def startswith_def)

text \<open>
  C3, amended. In every mode the retained item keys are sorted as they are (uncleaned),
  without repetition, and the triples follow in that order, each named by the cleaned
  key; the columns depend on the set of item keys only, not on the order of discovery.
  In daily mode no retained key has the \<^verbatim>\<open>'Hly'\<close> prefix, so there the order is also
  that of the sorted cleaned keys.
\<close>

theorem data_columns_order:
  "sorted (sorted_data_items st recs) \<and> distinct (sorted_data_items st recs)
   \<and> set (sorted_data_items st recs) = filtered_data_items st recs
   \<and> data_columns (sorted_data_items st recs)
       = concat (map (\<lambda>item. [clean_item_name item @ ''_Value'', clean_item_name item @ ''_QC'',
                               clean_item_name item @ ''_Unit'']) (sorted_data_items st recs))
   \<and> (all_data_items recs = all_data_items recs' \<longrightarrow> all_columns st recs = all_columns st recs')
   \<and> data_columns (sorted_data_items ''daily'' recs) = spec_sorted_clean_columns ''daily'' recs"
proof -
  have img: "clean_item_name ` filtered_data_items ''daily'' recs
               = filtered_data_items ''daily'' recs"
    by (auto simp: daily_no_hly image_iff)
  have eq: "item_columns x = [x @ ''_Value'', x @ ''_QC'', x @ ''_Unit'']"
    if "x \<in> set (sorted_data_items ''daily'' recs)" for x
    using that by (simp add: item_columns_def daily_no_hly)
  have m: "map item_columns (sorted_data_items ''daily'' recs)
          = map (\<lambda>x. [x @ ''_Value'', x @ ''_QC'', x @ ''_Unit''])
              (sorted_data_items ''daily'' recs)"
    by (rule map_cong) (simp_all add: eq del: set_sorted_data_items)
  have "data_columns (sorted_data_items ''daily'' recs)
          = spec_sorted_clean_columns ''daily'' recs"
    using m unfolding spec_sorted_clean_columns_def data_columns_def img sorted_data_items_def
    by (rule arg_cong)
  moreover have "all_data_items recs = all_data_items recs'
                   \<longrightarrow> all_columns st recs = all_columns st recs'"
    by (simp add: all_columns_def sorted_data_items_def filtered_data_items_def)
  ultimately show ?thesis
    by (simp add: sorted_data_items_def data_columns_def item_columns_def[abs_def])
qed

theorem data_columns_order_witness:
  "all_data_items [daily_tmp_record, hourly_tmp_record]
     = all_data_items [hourly_tmp_record, daily_tmp_record]
   \<and> all_columns ''mixed'' [daily_tmp_record, hourly_tmp_record]
     = all_columns ''mixed'' [hourly_tmp_record, daily_tmp_record]
   \<and> sorted_data_items ''mixed'' [hourly_tmp_record, daily_tmp_record]
     = [''DayAirTmpAvg'', ''HlyAirTmp'']"
proof -
  have h: "all_data_items [daily_tmp_record, hourly_tmp_record]
             = all_data_items [hourly_tmp_record, daily_tmp_record]"
    by (auto simp: all_data_items_def)
  have s: "sorted_data_items ''mixed'' [hourly_tmp_record, daily_tmp_record]
             = [''DayAirTmpAvg'', ''HlyAirTmp'']"
    by (simp add: sorted_data_items_code daily_tmp_record_def hourly_tmp_record_def)
  from data_columns_order [of "''mixed''" "[daily_tmp_record, hourly_tmp_record]"
         "[hourly_tmp_record, daily_tmp_record]"] h s
  show ?thesis by blast
qed

section \<open>Properties of the export entry point\<close>

text \<open>When the destination cannot be opened, the export raises \<^verbatim>\<open>OSError\<close>.\<close>

lemma export_records_to_csv_not_writable:
  "\<not> writable filename \<Longrightarrow>
   export_records_to_csv repr writable weather_data recs filename scope_type fs
     = (Inl OSError, fs)"
  by (simp add: export_records_to_csv_def)

text \<open>Without records there is no date to sort, so the automatic name is generated.\<close>

lemma generate_weather_filename_no_records:
  "get_all_records weather_data = [] \<Longrightarrow>
   generate_weather_filename auto_name weather_data = Inr (auto_name weather_data)"
  by (simp add: generate_weather_filename_def sorted_set_raises_def)

text \<open>
  C4. When the flattened record list is empty, \<^verbatim>\<open>export_to_csv\<close> raises
  \<^verbatim>\<open>CimisDataError\<close> and leaves every file as it was, whether the file name is given or
  generated; a handler for \<^verbatim>\<open>CimisDataError\<close> catches it, a handler for \<^verbatim>\<open>OSError\<close> does
  not, and a handler for \<^verbatim>\<open>CimisDataError\<close> does not catch the \<^verbatim>\<open>OSError\<close> of a failed
  write.
\<close>

theorem export_to_csv_no_records:
  assumes "get_all_records weather_data = []"
  shows "export_to_csv repr writable auto_name weather_data filename include_all_columns
           separate_daily_hourly fs
         = (Inl (CimisDataError ''No data records to export''), fs)
       \<and> caught_by CimisDataError_class (CimisDataError ''No data records to export'')
       \<and> \<not> caught_by OSError_class (CimisDataError ''No data records to export'')
       \<and> \<not> caught_by CimisDataError_class OSError"
  using assms
  by (cases filename)
     (simp_all add: export_to_csv_def export_to_path_def generate_weather_filename_no_records
        caught_by_def numeral_nat)

theorem export_to_csv_no_records_witness:
  "get_all_records no_records_data = []
   \<and> export_to_csv repr_unused all_writable auto_out_csv no_records_data (Some out_csv) True True
       Map.empty
       = (Inl (CimisDataError ''No data records to export''), Map.empty)
   \<and> export_to_csv repr_unused all_writable auto_out_csv no_records_data None True True
       Map.empty
       = (Inl (CimisDataError ''No data records to export''), Map.empty)"
proof -
  have h: "get_all_records no_records_data = []"
    by (simp add: get_all_records_def no_records_data_def)
  from h export_to_csv_no_records [OF h, of repr_unused all_writable auto_out_csv "Some out_csv"]
    export_to_csv_no_records [OF h, of repr_unused all_writable auto_out_csv None]
  show ?thesis by blast
qed

section \<open>Properties of the row construction\<close>

lemma caught_by_simps [simp]:
  "caught_by ValueError_class ValueError" "caught_by TypeError_class TypeError"
  "\<not> caught_by ValueError_class OverflowError" "\<not> caught_by TypeError_class OverflowError"
  by (simp_all add: caught_by_def numeral_nat)

lemma strptime_error: "strptime d = Inl e \<Longrightarrow> e = ValueError \<or> e = TypeError"
  by (cases d) (auto simp: strptime_ymd_def Let_def split: if_splits)

lemma py_int_error: "py_int s = Inl e \<Longrightarrow> e = ValueError"
  by (auto simp: py_int_def Let_def split: if_splits)

lemma replace_hm_error: "replace_hm t h m = Inl e \<Longrightarrow> e = ValueError \<or> e = OverflowError"
  by (auto simp: replace_hm_def split: if_splits)

lemma datetime_full_try_error:
  "datetime_full_try repr d h = Inl e \<Longrightarrow> e = ValueError \<or> e = TypeError \<or> e = OverflowError"
  by (auto simp: datetime_full_try_def bindE_def Let_def
           split: if_splits sum.splits dest: strptime_error py_int_error replace_hm_error)

text \<open>
  The handler of \<^verbatim>\<open>(ValueError, TypeError)\<close> lets \<^verbatim>\<open>OverflowError\<close> through, and nothing
  else.
\<close>

lemma datetime_full_cases:
  "datetime_full repr d h =
     (case datetime_full_try repr d h of
        Inr cell \<Rightarrow> Inr cell
      | Inl e \<Rightarrow>
          if e = OverflowError then Inl OverflowError
          else Inr (JStr (py_str repr (py_or d (JStr '''')) @ '' ''
                          @ py_str repr (py_or h (JStr '''')))))"
  by (auto simp: datetime_full_def split: sum.splits dest: datetime_full_try_error)

lemma is_digit_of_char: "is_digit c \<longleftrightarrow> 48 \<le> (of_char c :: nat) \<and> (of_char c :: nat) \<le> 57"
  by (simp add: is_digit_def less_eq_char_def)

lemma digit_not_space: "is_digit c \<Longrightarrow> \<not> is_space c"
  by (auto simp: is_digit_of_char is_space_def)

lemma digit_not_sign: "is_digit c \<Longrightarrow> c \<noteq> CHR ''+'' \<and> c \<noteq> CHR ''-'' \<and> c \<noteq> CHR ''_''"
  by (auto simp: is_digit_of_char)

lemma py_int_two_digits:
  assumes "is_digit a" "is_digit b"
  shows "py_int [a, b] = Inr (int (digits_val [a, b]))"
  using assms digit_not_space[of a] digit_not_space[of b] digit_not_sign[of a] digit_not_sign[of b]
  by (simp add: py_int_def strip_def Let_def)

lemma is_digit_cases:
  assumes "is_digit c"
  shows "c \<in> set ''0123456789''"
proof -
  have "(of_char c :: nat) \<in> {48, 49, 50, 51, 52, 53, 54, 55, 56, 57}"
    using assms unfolding is_digit_of_char by (simp only: insert_iff empty_iff) arith
  then have "(of_char c :: nat) \<in> of_char ` set ''0123456789''"
    by simp
  then obtain d where "d \<in> set ''0123456789''" and "(of_char c :: nat) = of_char d"
    by blast
  then show ?thesis by simp
qed

lemma digit_char_digit_val: "is_digit c \<Longrightarrow> digit_char (digit_val c) = c"
  by (drule is_digit_cases) (auto simp: digit_char_def digit_val_def)

lemma digit_val_less: "is_digit c \<Longrightarrow> digit_val c < 10"
  by (auto simp: is_digit_of_char digit_val_def)

lemma dec2_digits_val:
  assumes "is_digit a" "is_digit b"
  shows "dec2 (digits_val [a, b]) = [a, b]"
proof -
  have 1: "digit_char ((10 * digit_val a + digit_val b) div 10) = a"
    using digit_val_less[OF assms(2)] digit_char_digit_val[OF assms(1)] by simp
  have 2: "digit_char (10 * digit_val a + digit_val b) = digit_char (digit_val b)"
    by (simp add: digit_char_def)
  show ?thesis
    using 1 2 digit_char_digit_val[OF assms(2)] by (simp add: dec2_def digits_val_def)
qed

lemma strptime_ymd_nonempty: "strptime_ymd s = Inr t \<Longrightarrow> s \<noteq> []"
  by (auto simp: strptime_ymd_def Let_def split: if_splits)

lemma strptime_ymd_time: "strptime_ymd s = Inr t \<Longrightarrow> dt_hour t = 0 \<and> dt_minute t = 0"
  by (auto simp: strptime_ymd_def Let_def split: if_splits)

lemma datetime_full_wellformed:
  assumes "strptime_ymd ds = Inr t" "is_digit a" "is_digit b" "is_digit c" "is_digit e"
    "digits_val [a, b] \<le> 23" "digits_val [c, e] \<le> 59"
  shows "datetime_full repr (JStr ds) (JStr [a, b, c, e])
         = Inr (JStr (dec4 (dt_year t) @ ''-'' @ dec2 (dt_month t) @ ''-'' @ dec2 (dt_day t)
                      @ ''T'' @ [a, b] @ '':'' @ [c, e] @ '':00''))"
  using assms strptime_ymd_nonempty[OF assms(1)]
  by (simp add: datetime_full_cases datetime_full_try_def bindE_def py_str_def zfill_def
        py_int_two_digits replace_hm_def c_int_def isoformat_def dec2_digits_val)

lemma datetime_full_no_hour: "\<not> truthy h \<Longrightarrow> datetime_full repr d h = Inr (JStr '''')"
  by (simp add: datetime_full_cases datetime_full_try_def)

lemma datetime_full_fallback:
  "datetime_full_try repr d h = Inl e \<Longrightarrow>
   caught_by ValueError_class e \<or> caught_by TypeError_class e \<Longrightarrow>
   datetime_full repr d h = Inr (JStr (py_str repr (py_or d (JStr '''')) @ '' ''
                            @ py_str repr (py_or h (JStr ''''))))"
  by (simp add: datetime_full_def)

lemma datetime_full_overflow:
  "datetime_full_try repr d h = Inl OverflowError \<Longrightarrow>
   datetime_full repr d h = Inl OverflowError"
  by (simp add: datetime_full_def)

text \<open>
  The integer read from a text has fewer decimal digits than the text has characters, so
  a minute part of at most nine characters fits a C integer.
\<close>

lemma foldl_digits_bound:
  "list_all is_digit s \<Longrightarrow>
   foldl (\<lambda>n c. 10 * n + digit_val c) n s < (n + 1) * 10 ^ length s"
proof (induction s arbitrary: n)
  case Nil
  then show ?case by simp
next
  case (Cons c s)
  then have c: "digit_val c < 10" and s: "list_all is_digit s"
    by (simp_all add: digit_val_less)
  have "foldl (\<lambda>n c. 10 * n + digit_val c) (10 * n + digit_val c) s
          < (10 * n + digit_val c + 1) * 10 ^ length s"
    using Cons.IH[OF s] .
  also have "\<dots> \<le> (10 * (n + 1)) * 10 ^ length s"
    using c by (intro mult_right_mono) simp_all
  finally show ?case by (simp add: algebra_simps)
qed

lemma digits_val_bound: "list_all is_digit s \<Longrightarrow> digits_val s < 10 ^ length s"
  using foldl_digits_bound[of s 0] by (simp add: digits_val_def)

lemma int_digits_filter:
  "int_digits u \<Longrightarrow> list_all is_digit (filter (\<lambda>c. c \<noteq> CHR ''_'') u)"
  by (induction u rule: int_digits.induct) (auto split: if_splits)

lemma length_strip: "length (strip s) \<le> length s"
proof -
  have "length (strip s) \<le> length (dropWhile is_space s)"
    using length_dropWhile_le[of is_space "rev (dropWhile is_space s)"]
    by (simp add: strip_def)
  also have "\<dots> \<le> length s"
    by (rule length_dropWhile_le)
  finally show ?thesis .
qed

lemma py_int_bound:
  assumes "py_int s = Inr v"
  shows "\<bar>v\<bar> < 10 ^ length s"
proof -
  define u where "u = (if strip s \<noteq> [] \<and> (hd (strip s) = CHR ''+'' \<or> hd (strip s) = CHR ''-'')
                       then tl (strip s) else strip s)"
  define digits where "digits = filter (\<lambda>c. c \<noteq> CHR ''_'') u"
  from assms have i: "int_digits u"
    and v: "\<bar>v\<bar> = int (digits_val digits)"
    by (auto simp: py_int_def Let_def u_def digits_def split: if_splits)
  have "length digits \<le> length u"
    by (simp add: digits_def)
  also have "\<dots> \<le> length (strip s)"
    by (simp add: u_def)
  also have "\<dots> \<le> length s"
    by (rule length_strip)
  finally have l: "length digits \<le> length s" .
  have "digits_val digits < 10 ^ length digits"
    using int_digits_filter[OF i] by (simp add: digits_def digits_val_bound)
  also have "\<dots> \<le> 10 ^ length s"
    using l by (simp add: power_increasing)
  finally have "int (digits_val digits) < int (10 ^ length s)"
    by (simp only: of_nat_less_iff)
  with v show ?thesis by simp
qed

lemma py_int_c_int:
  assumes "py_int s = Inr v" "length s \<le> 9"
  shows "c_int v"
proof -
  have "(10::int) ^ length s \<le> 10 ^ 9"
    using assms(2) by (intro power_increasing) simp_all
  with py_int_bound[OF assms(1)] have "\<bar>v\<bar> < 1000000000"
    by simp
  then show ?thesis
    unfolding c_int_def by arith
qed

lemma length_zfill: "length (zfill width s) = max width (length s)"
  by (auto simp: zfill_def split: list.splits)

lemma datetime_full_try_no_overflow:
  assumes "length (py_str repr h) \<le> 11"
  shows "datetime_full_try repr d h \<noteq> Inl OverflowError"
proof
  assume o: "datetime_full_try repr d h = Inl OverflowError"
  define hs where "hs = zfill 4 (py_str repr h)"
  have l: "length (take 2 hs) \<le> 9" "length (drop 2 hs) \<le> 9"
    using assms by (simp_all add: hs_def length_zfill)
  from o obtain t hv mv where hv: "py_int (take 2 hs) = Inr hv"
    and mv: "(if 2 < length hs then py_int (drop 2 hs) else Inr 0) = Inr mv"
    and r: "replace_hm t hv mv = Inl OverflowError"
    by (auto simp: datetime_full_try_def bindE_def Let_def hs_def
             split: if_splits sum.splits dest: strptime_error py_int_error)
  have "c_int hv"
    using py_int_c_int[OF hv l(1)] .
  moreover have "c_int mv"
    using mv py_int_c_int[OF _ l(2)] by (auto simp: c_int_def split: if_splits)
  ultimately show False
    using r by (simp add: replace_hm_def split: if_splits)
qed

lemma strptime_ymd_2023_01_01:
  "strptime_ymd ''2023-01-01''
     = Inr \<lparr> dt_year = 2023, dt_month = 1, dt_day = 1, dt_hour = 0, dt_minute = 0 \<rparr>"
  by (simp add: strptime_ymd_def Let_def month_token_def day_token_def is_digit_def
        digits_val_def digit_val_def days_in_month_def is_leap_def)

lemma py_int_ab: "py_int ''ab'' = Inl ValueError"
  by (simp add: py_int_def strip_def is_space_def Let_def is_digit_def)

lemma datetime_full_abcd:
  "datetime_full repr (JStr ''2023-01-01'') (JStr ''abcd'') = Inr (JStr ''2023-01-01 abcd'')"
  by (simp add: datetime_full_cases datetime_full_try_def bindE_def py_str_def zfill_def
        py_or_def strptime_ymd_2023_01_01 py_int_ab)

lemma datetime_object_2023_01_01:
  "datetime_object (JStr ''2023-01-01'') = Inr (JStr ''2023-01-01T00:00:00'')"
  by (simp add: datetime_object_def strptime_ymd_2023_01_01 isoformat_def dec4_def dec2_def
        digit_char_def)

lemma item_column_not_fixed:
  "''DateTime_Full'' \<notin> set (item_columns item)" "''Hour'' \<notin> set (item_columns item)"
  "''Scope'' \<notin> set (item_columns item)"
  by (auto simp: item_columns_def dest: arg_cong[where f=last])

lemma add_item_other_key:
  "k \<notin> set (item_columns item) \<Longrightarrow> map_of (add_item record row item) k = map_of row k"
  by (auto simp: add_item_def item_columns_def map_of_dict_set Let_def split: option.splits)

lemma foldl_add_item_other_key:
  "(\<forall>item \<in> set items. k \<notin> set (item_columns item)) \<Longrightarrow>
   map_of (foldl (add_item record) row items) k = map_of row k"
  by (induction items arbitrary: row) (simp_all add: add_item_other_key)

lemma hour_columns_present:
  "scope_type = ''hourly'' \<or> scope_type = ''mixed'' \<Longrightarrow>
   ''Hour'' \<in> set (all_columns scope_type recs) \<and> ''DateTime_Full'' \<in> set (all_columns scope_type recs)"
  by (auto simp: all_columns_def base_columns_def)

lemma datetime_object_str: "\<exists>cell. datetime_object (JStr ds) = Inr cell"
  by (auto simp: datetime_object_def strptime_ymd_def Let_def split: sum.splits error.splits)

text \<open>
  With a string date the row is built exactly when the \<^verbatim>\<open>DateTime_Full\<close> cell is, and what
  the cell's computation raises leaves the row's construction.
\<close>

lemma build_row_datetime_full:
  assumes "''Hour'' \<in> set columns" "''DateTime_Full'' \<in> set columns"
    and "date record = JStr ds"
    and "datetime_full repr (JStr ds) (py_or (hour record) (JStr '''')) = Inr cell"
  shows "\<exists>row. build_row repr columns items provider record = Inr row
           \<and> map_of row ''DateTime_Full'' = Some cell"
proof -
  obtain c0 where c0: "datetime_object (JStr ds) = Inr c0"
    using datetime_object_str by blast
  show ?thesis
    using assms c0
    by (simp add: build_row_def hour_cells_def bindE_def Let_def foldl_add_item_other_key
          item_column_not_fixed map_of_dict_set)
qed

lemma build_row_datetime_full_raises:
  assumes "''Hour'' \<in> set columns" "''DateTime_Full'' \<in> set columns"
    and "date record = JStr ds"
    and "datetime_full repr (JStr ds) (py_or (hour record) (JStr '''')) = Inl e"
  shows "build_row repr columns items provider record = Inl e"
proof -
  obtain c0 where c0: "datetime_object (JStr ds) = Inr c0"
    using datetime_object_str by blast
  show ?thesis
    using assms c0
    by (simp add: build_row_def hour_cells_def bindE_def Let_def)
qed

text \<open>
  C5, amended. In hourly and in mixed mode, for a record whose date is a string: when the
  hour is absent or empty the row is built and its \<^verbatim>\<open>DateTime_Full\<close> cell is the empty
  string; when the date parses and the hour is a four-digit token \<^verbatim>\<open>HHMM\<close> with \<^verbatim>\<open>HH\<close> at
  most 23 and \<^verbatim>\<open>MM\<close> at most 59 the row is built and the cell is the ISO-8601 combination
  of date and time (for \<^verbatim>\<open>"0130"\<close> it ends in \<^verbatim>\<open>T01:30:00\<close>); when the parse of a present
  date and hour fails with \<^verbatim>\<open>ValueError\<close> or \<^verbatim>\<open>TypeError\<close> the row is built and the cell
  is the text of the date, a space and the text of the hour, not the empty string. The
  row is built whenever the text of the hour has at most eleven characters; when the
  parse fails with \<^verbatim>\<open>OverflowError\<close> (a minute part too large for a C integer), that
  exception leaves the construction of the row.
\<close>

theorem datetime_full_column:
  assumes "scope_type = ''hourly'' \<or> scope_type = ''mixed''"
    and "date record = JStr ds"
  shows "(\<not> truthy (hour record) \<longrightarrow>
           (\<exists>row. build_row repr (all_columns scope_type recs) items provider record = Inr row
              \<and> map_of row ''DateTime_Full'' = Some (JStr '''')))
     \<and> (\<forall>t a b c e.
           strptime_ymd ds = Inr t \<and> hour record = JStr [a, b, c, e]
           \<and> is_digit a \<and> is_digit b \<and> is_digit c \<and> is_digit e
           \<and> digits_val [a, b] \<le> 23 \<and> digits_val [c, e] \<le> 59 \<longrightarrow>
           (\<exists>row. build_row repr (all_columns scope_type recs) items provider record = Inr row
              \<and> map_of row ''DateTime_Full''
                  = Some (JStr (dec4 (dt_year t) @ ''-'' @ dec2 (dt_month t) @ ''-''
                                @ dec2 (dt_day t) @ ''T'' @ [a, b] @ '':'' @ [c, e] @ '':00''))))
     \<and> (\<forall>err. datetime_full_try repr (JStr ds) (hour record) = Inl err
             \<and> (caught_by ValueError_class err \<or> caught_by TypeError_class err) \<longrightarrow>
           (\<exists>row. build_row repr (all_columns scope_type recs) items provider record = Inr row
              \<and> map_of row ''DateTime_Full''
                  = Some (JStr (ds @ '' '' @ py_str repr (hour record)))))
     \<and> (length (py_str repr (hour record)) \<le> 11 \<longrightarrow>
           (\<exists>row. build_row repr (all_columns scope_type recs) items provider record = Inr row))
     \<and> (datetime_full_try repr (JStr ds) (hour record) = Inl OverflowError \<longrightarrow>
           build_row repr (all_columns scope_type recs) items provider record
             = Inl OverflowError)"
proof -
  let ?cols = "all_columns scope_type recs"
  from hour_columns_present[OF assms(1)]
  have ch: "''Hour'' \<in> set ?cols" and cf: "''DateTime_Full'' \<in> set ?cols"
    by simp_all
  note built = build_row_datetime_full[OF ch cf assms(2), of repr _ items provider]
  have 1: "\<exists>row. build_row repr ?cols items provider record = Inr row
              \<and> map_of row ''DateTime_Full'' = Some (JStr '''')"
    if "\<not> truthy (hour record)"
    using that by (intro built) (simp add: py_or_def datetime_full_no_hour)
  have 2: "\<exists>row. build_row repr ?cols items provider record = Inr row
              \<and> map_of row ''DateTime_Full''
                  = Some (JStr (dec4 (dt_year t) @ ''-'' @ dec2 (dt_month t) @ ''-''
                                @ dec2 (dt_day t) @ ''T'' @ [a, b] @ '':'' @ [c, e] @ '':00''))"
    if "strptime_ymd ds = Inr t" "hour record = JStr [a, b, c, e]"
       "is_digit a" "is_digit b" "is_digit c" "is_digit e"
       "digits_val [a, b] \<le> 23" "digits_val [c, e] \<le> 59" for t a b c e
    using that(2) datetime_full_wellformed[OF that(1) that(3-8), of repr]
    by (intro built) (simp add: py_or_def)
  have 3: "\<exists>row. build_row repr ?cols items provider record = Inr row
              \<and> map_of row ''DateTime_Full''
                  = Some (JStr (ds @ '' '' @ py_str repr (hour record)))"
    if "datetime_full_try repr (JStr ds) (hour record) = Inl err"
       "caught_by ValueError_class err \<or> caught_by TypeError_class err" for err
  proof -
    from that(1) have t: "truthy (hour record)" and d: "ds \<noteq> []"
      by (auto simp: datetime_full_try_def split: if_splits)
    with datetime_full_fallback[OF that] show ?thesis
      by (intro built) (simp add: py_or_def py_str_def)
  qed
  have 4: "\<exists>row. build_row repr ?cols items provider record = Inr row"
    if l: "length (py_str repr (hour record)) \<le> 11"
  proof (cases "truthy (hour record)")
    case False
    with 1 show ?thesis by blast
  next
    case True
    have "\<exists>cell. datetime_full repr (JStr ds) (hour record) = Inr cell"
      using datetime_full_try_no_overflow[OF l, of "JStr ds"]
      by (cases "datetime_full_try repr (JStr ds) (hour record)")
         (simp_all add: datetime_full_cases)
    then obtain cell where "datetime_full repr (JStr ds) (hour record) = Inr cell"
      by blast
    with True built[of cell] show ?thesis
      by (auto simp: py_or_def)
  qed
  have 5: "build_row repr ?cols items provider record = Inl OverflowError"
    if o: "datetime_full_try repr (JStr ds) (hour record) = Inl OverflowError"
  proof -
    from o have t: "truthy (hour record)"
      by (auto simp: datetime_full_try_def split: if_splits)
    with datetime_full_overflow[OF o]
    have "datetime_full repr (JStr ds) (py_or (hour record) (JStr '''')) = Inl OverflowError"
      by (simp add: py_or_def)
    then show ?thesis
      by (rule build_row_datetime_full_raises[OF ch cf assms(2)])
  qed
  from 1 2 3 4 5 show ?thesis by blast
qed

lemma datetime_full_try_abcd:
  "datetime_full_try repr (JStr ''2023-01-01'') (JStr ''abcd'') = Inl ValueError"
  by (simp add: datetime_full_try_def bindE_def py_str_def zfill_def
        strptime_ymd_2023_01_01 py_int_ab)

lemma py_int_00: "py_int ''00'' = Inr 0"
  by (simp add: py_int_def strip_def is_space_def Let_def is_digit_def digits_val_def digit_val_def)

lemma py_int_2147483648: "py_int ''2147483648'' = Inr 2147483648"
  by (simp add: py_int_def strip_def is_space_def Let_def is_digit_def digits_val_def digit_val_def)

text \<open>
  The hour \<^verbatim>\<open>"002147483648"\<close>: hour 0 and a minute that does not fit a C integer.
\<close>

lemma datetime_full_try_overflow_hour:
  "datetime_full_try repr (JStr ''2023-01-01'') (JStr ''002147483648'') = Inl OverflowError"
  by (simp add: datetime_full_try_def bindE_def py_str_def zfill_def
        strptime_ymd_2023_01_01 py_int_00 py_int_2147483648 replace_hm_def c_int_def)

theorem datetime_full_column_witness:
  "(\<exists>row. build_row repr_unused (all_columns ''hourly'' [hourly_tmp_record])
            (sorted_data_items ''hourly'' [hourly_tmp_record]) station_provider hourly_tmp_record
          = Inr row
        \<and> map_of row ''DateTime_Full'' = Some (JStr ''2023-01-01T01:30:00''))
   \<and> (\<exists>row. build_row repr_unused (all_columns ''mixed'' [daily_tmp_record])
            (sorted_data_items ''mixed'' [daily_tmp_record]) station_provider daily_tmp_record
          = Inr row
        \<and> \<not> truthy (hour daily_tmp_record)
        \<and> map_of row ''DateTime_Full'' = Some (JStr []))
   \<and> (\<exists>row. build_row repr_unused (all_columns ''hourly'' [bad_hour_record])
            (sorted_data_items ''hourly'' [bad_hour_record]) station_provider bad_hour_record
          = Inr row
        \<and> datetime_full_try repr_unused (JStr ''2023-01-01'') (hour bad_hour_record)
            = Inl ValueError
        \<and> length (py_str repr_unused (hour bad_hour_record)) \<le> 11
        \<and> map_of row ''DateTime_Full'' = Some (JStr ''2023-01-01 abcd''))
   \<and> datetime_full_try repr_unused (JStr ''2023-01-01'') (hour overflow_hour_record)
       = Inl OverflowError
   \<and> build_row repr_unused (all_columns ''hourly'' [overflow_hour_record])
       (sorted_data_items ''hourly'' [overflow_hour_record]) station_provider overflow_hour_record
       = Inl OverflowError"
proof -
  have d1: "date hourly_tmp_record = JStr ''2023-01-01''"
    and d2: "date daily_tmp_record = JStr ''2023-01-01''"
    and d3: "date bad_hour_record = JStr ''2023-01-01''"
    and d4: "date overflow_hour_record = JStr ''2023-01-01''"
    by (simp_all add: hourly_tmp_record_def daily_tmp_record_def bad_hour_record_def
          overflow_hour_record_def)
  have m1: "''hourly'' = ''hourly'' \<or> ''hourly'' = ''mixed''"
    and m2: "''mixed'' = ''hourly'' \<or> ''mixed'' = ''mixed''"
    by simp_all
  have h1: "hour hourly_tmp_record = JStr [CHR ''0'', CHR ''1'', CHR ''3'', CHR ''0'']"
    by (simp add: hourly_tmp_record_def)
  have dg: "is_digit CHR ''0''" "is_digit CHR ''1''" "is_digit CHR ''3''"
    "digits_val [CHR ''0'', CHR ''1''] \<le> 23" "digits_val [CHR ''3'', CHR ''0''] \<le> 59"
    by (simp_all add: is_digit_def digits_val_def digit_val_def)
  have iso: "dec4 2023 = ''2023''" "dec2 (Suc 0) = ''01''"
    by (simp_all add: dec4_def dec2_def digit_char_def)
  from datetime_full_column [OF m1 d1, of repr_unused "[hourly_tmp_record]"
             "sorted_data_items ''hourly'' [hourly_tmp_record]" station_provider]
  have c1: "\<And>t a b c e.
           strptime_ymd ''2023-01-01'' = Inr t \<and> hour hourly_tmp_record = JStr [a, b, c, e]
           \<and> is_digit a \<and> is_digit b \<and> is_digit c \<and> is_digit e
           \<and> digits_val [a, b] \<le> 23 \<and> digits_val [c, e] \<le> 59 \<Longrightarrow>
           \<exists>row. build_row repr_unused (all_columns ''hourly'' [hourly_tmp_record])
                   (sorted_data_items ''hourly'' [hourly_tmp_record]) station_provider
                   hourly_tmp_record = Inr row
             \<and> map_of row ''DateTime_Full''
                 = Some (JStr (dec4 (dt_year t) @ ''-'' @ dec2 (dt_month t) @ ''-''
                               @ dec2 (dt_day t) @ ''T'' @ [a, b] @ '':'' @ [c, e] @ '':00''))"
    by blast
  have w1: "\<exists>row. build_row repr_unused (all_columns ''hourly'' [hourly_tmp_record])
            (sorted_data_items ''hourly'' [hourly_tmp_record]) station_provider hourly_tmp_record
          = Inr row
        \<and> map_of row ''DateTime_Full'' = Some (JStr ''2023-01-01T01:30:00'')"
    using c1 [of "\<lparr> dt_year = 2023, dt_month = 1, dt_day = 1, dt_hour = 0, dt_minute = 0 \<rparr>"
                 "CHR ''0''" "CHR ''1''" "CHR ''3''" "CHR ''0''"]
      strptime_ymd_2023_01_01 h1 dg iso
    by simp
  have nt: "\<not> truthy (hour daily_tmp_record)"
    by (simp add: daily_tmp_record_def)
  have w2: "\<exists>row. build_row repr_unused (all_columns ''mixed'' [daily_tmp_record])
            (sorted_data_items ''mixed'' [daily_tmp_record]) station_provider daily_tmp_record
          = Inr row
        \<and> \<not> truthy (hour daily_tmp_record)
        \<and> map_of row ''DateTime_Full'' = Some (JStr [])"
    using datetime_full_column [OF m2 d2, of repr_unused "[daily_tmp_record]"
                 "sorted_data_items ''mixed'' [daily_tmp_record]" station_provider] nt
    by blast
  have tr: "datetime_full_try repr_unused (JStr ''2023-01-01'') (hour bad_hour_record)
              = Inl ValueError"
    by (simp add: bad_hour_record_def datetime_full_try_abcd)
  have ln: "length (py_str repr_unused (hour bad_hour_record)) \<le> 11"
    by (simp add: bad_hour_record_def py_str_def)
  have fb: "''2023-01-01'' @ '' '' @ py_str repr_unused (hour bad_hour_record) = ''2023-01-01 abcd''"
    by (simp add: bad_hour_record_def py_str_def)
  from datetime_full_column [OF m1 d3, of repr_unused "[bad_hour_record]"
             "sorted_data_items ''hourly'' [bad_hour_record]" station_provider]
  have c3: "\<And>err. datetime_full_try repr_unused (JStr ''2023-01-01'') (hour bad_hour_record) = Inl err
               \<and> (caught_by ValueError_class err \<or> caught_by TypeError_class err)
               \<Longrightarrow> \<exists>row. build_row repr_unused (all_columns ''hourly'' [bad_hour_record])
                      (sorted_data_items ''hourly'' [bad_hour_record]) station_provider
                      bad_hour_record = Inr row
                    \<and> map_of row ''DateTime_Full''
                       = Some (JStr (''2023-01-01'' @ '' ''
                                     @ py_str repr_unused (hour bad_hour_record)))"
    by blast
  have w3: "\<exists>row. build_row repr_unused (all_columns ''hourly'' [bad_hour_record])
            (sorted_data_items ''hourly'' [bad_hour_record]) station_provider bad_hour_record
          = Inr row
        \<and> datetime_full_try repr_unused (JStr ''2023-01-01'') (hour bad_hour_record)
            = Inl ValueError
        \<and> length (py_str repr_unused (hour bad_hour_record)) \<le> 11
        \<and> map_of row ''DateTime_Full'' = Some (JStr ''2023-01-01 abcd'')"
    using c3 [of ValueError] tr ln fb by simp
  have ov: "datetime_full_try repr_unused (JStr ''2023-01-01'') (hour overflow_hour_record)
              = Inl OverflowError"
    by (simp add: overflow_hour_record_def datetime_full_try_overflow_hour)
  have w4: "build_row repr_unused (all_columns ''hourly'' [overflow_hour_record])
       (sorted_data_items ''hourly'' [overflow_hour_record]) station_provider overflow_hour_record
       = Inl OverflowError"
    using datetime_full_column [OF m1 d4, of repr_unused "[overflow_hour_record]"
             "sorted_data_items ''hourly'' [overflow_hour_record]" station_provider] ov
    by blast
  from w1 w2 w3 ov w4 show ?thesis by blast
qed

lemma all_columns_bad:
  "all_columns ''hourly'' [bad_hour_record]
     = [''Provider_Name'', ''Provider_Type'', ''Date'', ''Julian'', ''Station'', ''Standard'',
        ''ZipCodes'', ''Scope'', ''DateTime_Object'', ''Hour'', ''DateTime_Full'',
        ''AirTmp_Value'', ''AirTmp_QC'', ''AirTmp_Unit'']"
  by (simp add: all_columns_def base_columns_def sorted_data_items_code bad_hour_record_def
        keep_hourly_def startswith_def data_columns_def item_columns_def clean_item_name_def)

lemma sorted_items_bad: "sorted_data_items ''hourly'' [bad_hour_record] = [''HlyAirTmp'']"
  by (simp add: sorted_data_items_code bad_hour_record_def keep_hourly_def startswith_def)

lemma build_row_bad:
  "build_row repr_unused (all_columns ''hourly'' [bad_hour_record])
     (sorted_data_items ''hourly'' [bad_hour_record])
     \<lparr> name = JStr ''N'', type = JStr ''station'', owner = JStr ''O'', records = [bad_hour_record] \<rparr>
     bad_hour_record
   = Inr [(''Provider_Name'', JStr ''N''), (''Provider_Type'', JStr ''station''),
          (''Date'', JStr ''2023-01-01''), (''Julian'', JStr ''1''), (''Station'', JStr ''2''),
          (''Standard'', JStr ''english''), (''ZipCodes'', JStr []),
          (''Scope'', JStr ''hourly''), (''DateTime_Object'', JStr ''2023-01-01T00:00:00''),
          (''Hour'', JStr ''abcd''), (''DateTime_Full'', JStr ''2023-01-01 abcd''),
          (''AirTmp_Value'', JStr ''48.9''), (''AirTmp_QC'', JStr '' ''),
          (''AirTmp_Unit'', JStr ''(F)'')]"
  unfolding all_columns_bad sorted_items_bad
  apply (simp add: build_row_def bindE_def bad_hour_record_def datetime_object_2023_01_01
           hour_cells_def py_or_def datetime_full_abcd base_row_def)
  apply (simp add: add_item_def clean_item_name_def startswith_def py_or_def)
  done

lemma record_in_self: "record_in r [r]"
  by (simp add: record_in_def record_eq_def)

text \<open>
  C5 as stated (a malformed hour gives the empty string) fails: a record with the hour
  \<^verbatim>\<open>"abcd"\<close>, exported in hourly mode, gets the \<^verbatim>\<open>DateTime_Full\<close> cell
  \<^verbatim>\<open>"2023-01-01 abcd"\<close>, written by the handler of the failed parse.
\<close>

theorem datetime_full_malformed_hour_counterexample:
  "export_to_csv repr_unused all_writable auto_out_csv bad_hour_data (Some out_csv) True True
     Map.empty
     = (Inr ''out/weather.csv'',
        Map.empty(out_csv \<mapsto>
          \<lparr> header = [''Provider_Name'', ''Provider_Type'', ''Date'', ''Julian'', ''Station'',
                       ''Standard'', ''ZipCodes'', ''Scope'', ''DateTime_Object'', ''Hour'',
                       ''DateTime_Full'', ''AirTmp_Value'', ''AirTmp_QC'', ''AirTmp_Unit''],
            lines = [[JStr ''N'', JStr ''station'', JStr ''2023-01-01'', JStr ''1'', JStr ''2'',
                      JStr ''english'', JStr [], JStr ''hourly'', JStr ''2023-01-01T00:00:00'',
                      JStr ''abcd'', JStr ''2023-01-01 abcd'', JStr ''48.9'', JStr '' '',
                      JStr ''(F)'']] \<rparr>))"
proof -
  have recs: "get_all_records bad_hour_data = [bad_hour_record]"
    by (simp add: get_all_records_def bad_hour_data_def)
  have sc: "scope bad_hour_record = JStr ''hourly''"
    by (simp add: bad_hour_record_def)
  have ex: "export_records_to_csv repr_unused all_writable bad_hour_data [bad_hour_record]
              out_csv ''hourly'' Map.empty
     = (Inr ''out/weather.csv'',
        Map.empty(out_csv \<mapsto>
          \<lparr> header = [''Provider_Name'', ''Provider_Type'', ''Date'', ''Julian'', ''Station'',
                       ''Standard'', ''ZipCodes'', ''Scope'', ''DateTime_Object'', ''Hour'',
                       ''DateTime_Full'', ''AirTmp_Value'', ''AirTmp_QC'', ''AirTmp_Unit''],
            lines = [[JStr ''N'', JStr ''station'', JStr ''2023-01-01'', JStr ''1'', JStr ''2'',
                      JStr ''english'', JStr [], JStr ''hourly'', JStr ''2023-01-01T00:00:00'',
                      JStr ''abcd'', JStr ''2023-01-01 abcd'', JStr ''48.9'', JStr '' '',
                      JStr ''(F)'']] \<rparr>))"
    apply (simp add: export_records_to_csv_def Let_def all_writable_def bad_hour_data_def
             build_row_bad bindE_def record_in_self)
    apply (simp add: all_columns_bad writerow_def dict_get_def path_str_def out_csv_def)
    done
  show ?thesis
    by (simp add: export_to_csv_def export_to_path_def Let_def recs sc ex)
qed

text \<open>
  A two-digit hour is padded on the left by \<^verbatim>\<open>zfill(4)\<close>, so \<^verbatim>\<open>"13"\<close> is read as hour 00,
  minute 13; the test \<^verbatim>\<open>len(hour_str) > 2\<close> after the padding always holds.
\<close>

lemma py_int_13: "py_int ''13'' = Inr 13"
  by (simp add: py_int_def strip_def is_space_def Let_def is_digit_def digits_val_def digit_val_def)

lemma datetime_full_two_digit_hour:
  "datetime_full repr (JStr ''2023-01-01'') (JStr ''13'') = Inr (JStr ''2023-01-01T00:13:00'')"
  by (simp add: datetime_full_cases datetime_full_try_def bindE_def py_str_def zfill_def
        py_or_def strptime_ymd_2023_01_01 py_int_00 py_int_13 replace_hm_def c_int_def
        isoformat_def dec4_def dec2_def digit_char_def numeral_2_eq_2)

section \<open>Records of other scopes in the separated export\<close>

text \<open>
  A record equal to a record of scope \<^verbatim>\<open>'daily'\<close> or \<^verbatim>\<open>'hourly'\<close> has that scope itself:
  only a string equals a string.
\<close>

lemma canon_str_iff: "canon x = JStr s \<longleftrightarrow> x = JStr s"
  by (cases x) auto

lemma record_eq_scope: "record_eq r r' \<Longrightarrow> canon (scope r) = canon (scope r')"
  by (simp add: record_eq_def record_key_def)

lemma record_eq_known: "record_eq r r' \<Longrightarrow> known_scope r' \<Longrightarrow> known_scope r"
  by (drule record_eq_scope) (auto simp: known_scope_def canon_str_iff)

lemma record_in_known:
  "\<forall>r' \<in> set recs. known_scope r' \<Longrightarrow> record_in r recs \<Longrightarrow> known_scope r"
  by (auto simp: record_in_def list_ex_iff intro: record_eq_known)

lemma build_row_records_update:
  "build_row repr cols items (p\<lparr> records := X \<rparr>) r = build_row repr cols items p r"
  by (simp add: build_row_def base_row_def)

lemma write_records_filter:
  "(\<forall>r \<in> set recs. known_scope r) \<Longrightarrow>
   write_records repr cols items recs (p\<lparr> records := X \<rparr>) (filter known_scope rs) out
     = write_records repr cols items recs p rs out"
proof (induction rs arbitrary: out)
  case Nil
  then show ?case by simp
next
  case (Cons r rs)
  show ?case
  proof (cases "known_scope r")
    case True
    then show ?thesis
      using Cons by (simp add: build_row_records_update split: sum.splits)
  next
    case False
    with Cons.prems have "\<not> record_in r recs"
      using record_in_known by blast
    with False Cons show ?thesis by simp
  qed
qed

lemma write_providers_filter:
  "(\<forall>r \<in> set recs. known_scope r) \<Longrightarrow>
   write_providers repr cols items recs
       (map (\<lambda>p. p\<lparr> records := filter known_scope (records p) \<rparr>) ps) out
     = write_providers repr cols items recs ps out"
proof (induction ps arbitrary: out)
  case Nil
  then show ?case by simp
next
  case (Cons p ps)
  then show ?case
    by (simp add: write_records_filter split: prod.splits option.splits)
qed

lemma export_records_filter:
  "(\<forall>r \<in> set recs. known_scope r) \<Longrightarrow>
   export_records_to_csv repr writable (without_other_scopes wd) recs filename st fs
     = export_records_to_csv repr writable wd recs filename st fs"
  by (simp add: export_records_to_csv_def without_other_scopes_def write_providers_filter Let_def)

lemma get_all_records_without:
  "get_all_records (without_other_scopes wd) = filter known_scope (get_all_records wd)"
  by (simp add: get_all_records_def without_other_scopes_def filter_concat comp_def)

lemma filter_daily_known:
  "filter (\<lambda>r. scope r = JStr ''daily'') (filter known_scope rs)
     = filter (\<lambda>r. scope r = JStr ''daily'') rs"
  by (induction rs) (auto simp: known_scope_def)

lemma filter_hourly_known:
  "filter (\<lambda>r. scope r \<noteq> JStr ''daily'' \<and> scope r = JStr ''hourly'') (filter known_scope rs)
     = filter (\<lambda>r. scope r \<noteq> JStr ''daily'' \<and> scope r = JStr ''hourly'') rs"
  by (induction rs) (auto simp: known_scope_def)

lemma some_known:
  assumes "\<exists>r \<in> set rs. known_scope r"
  shows "filter known_scope rs \<noteq> []" "rs \<noteq> []"
    "filter (\<lambda>r. scope r = JStr ''daily'') rs \<noteq> []
     \<or> filter (\<lambda>r. scope r \<noteq> JStr ''daily'' \<and> scope r = JStr ''hourly'') rs \<noteq> []"
  using assms by (auto simp: filter_empty_conv known_scope_def)

lemma export_to_path_without_other_scopes:
  assumes "\<exists>r \<in> set (get_all_records wd). known_scope r"
  shows "export_to_path repr writable (without_other_scopes wd) filename True fs
           = export_to_path repr writable wd filename True fs"
proof -
  let ?all = "get_all_records wd"
  let ?daily = "filter (\<lambda>r. scope r = JStr ''daily'') ?all"
  let ?hourly = "filter (\<lambda>r. scope r \<noteq> JStr ''daily'' \<and> scope r = JStr ''hourly'') ?all"
  have kd: "\<forall>r \<in> set ?daily. known_scope r" and kh: "\<forall>r \<in> set ?hourly. known_scope r"
    by (auto simp: known_scope_def)
  note sk = some_known[OF assms]
  show ?thesis
    unfolding export_to_path_def Let_def get_all_records_without filter_daily_known
      filter_hourly_known export_records_filter[OF kd] export_records_filter[OF kh]
    using sk by simp
qed

lemma hour_cells_other_key:
  "hour_cells repr cols r row0 = Inr row1 \<Longrightarrow> k \<noteq> ''Hour'' \<Longrightarrow> k \<noteq> ''DateTime_Full'' \<Longrightarrow>
   map_of row1 k = map_of row0 k"
  by (auto simp: hour_cells_def Let_def bindE_Inr_iff map_of_dict_set split: if_splits)

lemma build_row_scope:
  assumes "build_row repr cols items p r = Inr row"
  shows "map_of row ''Scope'' = Some (scope r)"
proof -
  from assms obtain c row1 where
    h: "hour_cells repr cols r (dict_set (base_row p r) ''DateTime_Object'' c) = Inr row1"
    and row: "row = foldl (add_item r) row1 items"
    by (auto simp: build_row_def bindE_Inr_iff)
  have "map_of row1 ''Scope'' = Some (scope r)"
    using hour_cells_other_key[OF h, of "''Scope''"]
    by (simp add: map_of_dict_set base_row_def)
  then show ?thesis
    by (simp add: row foldl_add_item_other_key item_column_not_fixed)
qed

lemma writerow_nth:
  "writerow cols row = Inr line \<Longrightarrow> i < length cols \<Longrightarrow>
   line ! i = dict_get row (cols ! i) (JStr [])"
  by (auto simp: writerow_def split: if_splits)

lemma all_columns_scope:
  "7 < length (all_columns st recs)" "all_columns st recs ! 7 = ''Scope''"
  by (simp_all add: all_columns_def base_columns_def nth_append)

lemma write_records_scope:
  assumes "\<forall>r \<in> set recs. known_scope r" "7 < length cols" "cols ! 7 = ''Scope''"
  shows "list_all known_line out \<Longrightarrow>
         list_all known_line (snd (write_records repr cols items recs p rs out))"
proof (induction rs arbitrary: out)
  case Nil
  then show ?case by simp
next
  case (Cons r rs)
  show ?case
  proof (cases "record_in r recs")
    case False
    with Cons show ?thesis by simp
  next
    case True
    show ?thesis
    proof (cases "bindE (build_row repr cols items p r) (writerow cols)")
      case (Inl e)
      with True Cons.prems show ?thesis by simp
    next
      case (Inr line)
      then obtain row where b: "build_row repr cols items p r = Inr row"
        and w: "writerow cols row = Inr line"
        by (auto simp: bindE_Inr_iff)
      have "line ! 7 = scope r"
        using writerow_nth[OF w assms(2)] build_row_scope[OF b] assms(3)
        by (simp add: dict_get_def)
      with record_in_known[OF assms(1) True] have "known_line line"
        by (auto simp: known_line_def known_scope_def)
      with Cons.prems have "list_all known_line (out @ [line])" by simp
      from Cons.IH[OF this] True Inr show ?thesis by simp
    qed
  qed
qed

lemma write_providers_scope:
  assumes "\<forall>r \<in> set recs. known_scope r" "7 < length cols" "cols ! 7 = ''Scope''"
  shows "list_all known_line out \<Longrightarrow>
         list_all known_line (snd (write_providers repr cols items recs ps out))"
proof (induction ps arbitrary: out)
  case Nil
  then show ?case by simp
next
  case (Cons p ps)
  from write_records_scope[OF assms Cons.prems, of repr items p "records p"]
  have k: "list_all known_line (snd (write_records repr cols items recs p (records p) out))" .
  show ?case
  proof (cases "write_records repr cols items recs p (records p) out")
    case (Pair e out1)
    with k have k1: "list_all known_line out1" by simp
    show ?thesis
    proof (cases e)
      case None
      with Pair Cons.IH[OF k1] show ?thesis by simp
    next
      case (Some err)
      with Pair k1 show ?thesis by simp
    qed
  qed
qed

lemma scope_cells_known_iff:
  "scope_cells_known f \<longleftrightarrow> header f ! 7 = ''Scope'' \<and> list_all known_line (lines f)"
  by (simp add: scope_cells_known_def known_line_def[abs_def])

lemma export_records_scope:
  assumes "\<forall>r \<in> set recs. known_scope r"
    and "snd (export_records_to_csv repr writable wd recs filename st fs) q = Some f"
  shows "fs q = Some f \<or> scope_cells_known f"
proof (cases "writable filename")
  case False
  with assms(2) show ?thesis by (simp add: export_records_to_csv_def Let_def)
next
  case True
  let ?cols = "all_columns st recs"
  obtain e out where wp:
    "write_providers repr ?cols (sorted_data_items st recs) recs (providers wd) [] = (e, out)"
    by (cases "write_providers repr ?cols (sorted_data_items st recs) recs (providers wd) []")
  from write_providers_scope[OF assms(1) all_columns_scope, of "[]" repr st recs
      "sorted_data_items st recs" "providers wd"] wp
  have k: "list_all known_line out" by simp
  have fs': "snd (export_records_to_csv repr writable wd recs filename st fs)
               = fs(filename \<mapsto> \<lparr> header = ?cols, lines = out \<rparr>)"
    using True wp by (cases e) (simp_all add: export_records_to_csv_def Let_def)
  show ?thesis
  proof (cases "q = filename")
    case True
    with assms(2) fs' k show ?thesis
      by (auto simp: scope_cells_known_iff all_columns_scope)
  next
    case False
    with assms(2) fs' show ?thesis by simp
  qed
qed

lemma export_to_path_scope_cells:
  assumes "\<exists>r \<in> set (get_all_records wd). known_scope r"
    and "snd (export_to_path repr writable wd filename True fs) q = Some f"
  shows "fs q = Some f \<or> scope_cells_known f"
proof -
  let ?all = "get_all_records wd"
  let ?daily = "filter (\<lambda>r. scope r = JStr ''daily'') ?all"
  let ?hourly = "filter (\<lambda>r. scope r \<noteq> JStr ''daily'' \<and> scope r = JStr ''hourly'') ?all"
  have kd: "\<forall>r \<in> set ?daily. known_scope r" and kh: "\<forall>r \<in> set ?hourly. known_scope r"
    by (auto simp: known_scope_def)
  note sk = some_known[OF assms(1)]
  show ?thesis
  proof (cases "?daily \<noteq> [] \<and> ?hourly \<noteq> []")
    case both: True
    show ?thesis
    proof (cases "with_name filename (stem filename @ ''_daily'' @ suffix_of filename)")
      case (Inl e)
      with both sk assms(2) show ?thesis by (simp add: export_to_path_def Let_def)
    next
      case dn: (Inr daily_filename)
      show ?thesis
      proof (cases "with_name filename (stem filename @ ''_hourly'' @ suffix_of filename)")
        case (Inl e)
        with both sk dn assms(2) show ?thesis by (simp add: export_to_path_def Let_def)
      next
        case hn: (Inr hourly_filename)
        obtain r1 fs1 where e1: "export_records_to_csv repr writable wd ?daily daily_filename
                                   ''daily'' fs = (r1, fs1)"
          by (cases "export_records_to_csv repr writable wd ?daily daily_filename ''daily'' fs")
        have s1: "fs1 q' = Some f' \<Longrightarrow> fs q' = Some f' \<or> scope_cells_known f'" for q' f'
          using export_records_scope[OF kd, of repr writable wd daily_filename "''daily''" fs q' f'] e1
          by simp
        show ?thesis
        proof (cases r1)
          case (Inl e)
          with both sk dn hn e1 assms(2) have "fs1 q = Some f"
            by (simp add: export_to_path_def Let_def)
          with s1 show ?thesis by blast
        next
          case ok1: (Inr m1)
          obtain r2 fs2 where e2: "export_records_to_csv repr writable wd ?hourly hourly_filename
                                     ''hourly'' fs1 = (r2, fs2)"
            by (cases "export_records_to_csv repr writable wd ?hourly hourly_filename ''hourly'' fs1")
          have s2: "fs2 q' = Some f' \<Longrightarrow> fs1 q' = Some f' \<or> scope_cells_known f'" for q' f'
            using export_records_scope[OF kh, of repr writable wd hourly_filename "''hourly''" fs1 q' f'] e2
            by simp
          from both sk dn hn e1 ok1 e2 assms(2) have "fs2 q = Some f"
            by (cases r2) (simp_all add: export_to_path_def Let_def)
          with s1 s2 show ?thesis by blast
        qed
      qed
    qed
  next
    case notboth: False
    show ?thesis
    proof (cases "?daily \<noteq> []")
      case True
      with notboth sk assms(2) export_records_scope[OF kd, of repr writable wd filename "''daily''" fs q f]
      show ?thesis by (simp add: export_to_path_def Let_def)
    next
      case False
      with sk have "?hourly \<noteq> []" by simp
      with False sk assms(2) export_records_scope[OF kh, of repr writable wd filename "''hourly''" fs q f]
      show ?thesis by (simp add: export_to_path_def Let_def)
    qed
  qed
qed

lemma export_to_csv_scope_cells:
  assumes "\<exists>r \<in> set (get_all_records wd). known_scope r"
    and "snd (export_to_csv repr writable auto_name wd filename iac True fs) q = Some f"
  shows "fs q = Some f \<or> scope_cells_known f"
proof (cases "case filename of None \<Rightarrow> generate_weather_filename auto_name wd
                | Some given \<Rightarrow> Inr given")
  case (Inl e)
  with assms(2) show ?thesis by (simp add: export_to_csv_def)
next
  case (Inr path)
  with assms(2) have "snd (export_to_path repr writable wd path True fs) q = Some f"
    by (simp add: export_to_csv_def)
  from export_to_path_scope_cells[OF assms(1) this] show ?thesis .
qed

lemma all_columns_daily_tmp:
  "all_columns ''daily'' [daily_tmp_record]
     = [''Provider_Name'', ''Provider_Type'', ''Date'', ''Julian'', ''Station'', ''Standard'',
        ''ZipCodes'', ''Scope'', ''DateTime_Object'',
        ''DayAirTmpAvg_Value'', ''DayAirTmpAvg_QC'', ''DayAirTmpAvg_Unit'']"
  by (simp add: all_columns_def base_columns_def sorted_data_items_code daily_tmp_record_def
        keep_daily_def startswith_def data_columns_def item_columns_def clean_item_name_def)

lemma sorted_items_daily_tmp: "sorted_data_items ''daily'' [daily_tmp_record] = [''DayAirTmpAvg'']"
  by (simp add: sorted_data_items_code daily_tmp_record_def keep_daily_def startswith_def)

lemma build_row_daily_tmp:
  "build_row repr (all_columns ''daily'' [daily_tmp_record])
     (sorted_data_items ''daily'' [daily_tmp_record]) p daily_tmp_record
   = Inr [(''Provider_Name'', name p), (''Provider_Type'', type p),
          (''Date'', JStr ''2023-01-01''), (''Julian'', JStr ''1''), (''Station'', JStr ''2''),
          (''Standard'', JStr ''english''), (''ZipCodes'', JStr []),
          (''Scope'', JStr ''daily''), (''DateTime_Object'', JStr ''2023-01-01T00:00:00''),
          (''DayAirTmpAvg_Value'', JStr ''51.2''), (''DayAirTmpAvg_QC'', JStr '' ''),
          (''DayAirTmpAvg_Unit'', JStr ''(F)'')]"
  unfolding all_columns_daily_tmp sorted_items_daily_tmp
  apply (simp add: build_row_def bindE_def daily_tmp_record_def datetime_object_2023_01_01
           hour_cells_def py_or_def base_row_def)
  apply (simp add: add_item_def clean_item_name_def startswith_def py_or_def)
  done

lemma weekly_not_daily: "\<not> record_in weekly_record [daily_tmp_record]"
  by (simp add: record_in_def record_eq_def record_key_def weekly_record_def
        daily_tmp_record_def)

lemma export_mixed_scope_data:
  "export_to_path repr_unused all_writable mixed_scope_data out_csv True Map.empty
     = (Inr ''out/weather.csv'', Map.empty(out_csv \<mapsto> daily_only_file))"
proof -
  have recs: "get_all_records mixed_scope_data = [daily_tmp_record, weekly_record]"
    by (simp add: get_all_records_def mixed_scope_data_def)
  have sc: "scope daily_tmp_record = JStr ''daily''" "scope weekly_record = JStr ''weekly''"
    by (simp_all add: daily_tmp_record_def weekly_record_def)
  have ex: "export_records_to_csv repr_unused all_writable mixed_scope_data [daily_tmp_record]
              out_csv ''daily'' Map.empty
     = (Inr ''out/weather.csv'', Map.empty(out_csv \<mapsto> daily_only_file))"
    apply (simp add: export_records_to_csv_def Let_def all_writable_def mixed_scope_data_def
             build_row_daily_tmp bindE_def weekly_not_daily record_in_self)
    apply (simp add: all_columns_daily_tmp writerow_def dict_get_def path_str_def out_csv_def
             daily_only_file_def weekly_not_daily record_in_self)
    done
  show ?thesis
    by (simp add: export_to_path_def Let_def recs sc ex)
qed

lemma mixed_scope_data_known:
  "get_all_records mixed_scope_data = [daily_tmp_record, weekly_record]"
  "known_scope daily_tmp_record" "\<not> known_scope weekly_record"
  by (simp_all add: get_all_records_def mixed_scope_data_def known_scope_def
        daily_tmp_record_def weekly_record_def)

text \<open>
  C10 as stated fails when the file name is left to be generated: the generator sorts the
  dates of all records, those of other scopes included, before any record is filtered. For
  a \<^verbatim>\<open>'daily'\<close> record dated \<^verbatim>\<open>"2023-01-01"\<close> next to a \<^verbatim>\<open>'weekly'\<close> record whose date is the
  number 20230101, the export raises \<^verbatim>\<open>TypeError\<close> and writes nothing, while the export of
  the data without the \<^verbatim>\<open>'weekly'\<close> record writes its file.
\<close>

theorem export_to_csv_other_scope_date_counterexample:
  "get_all_records mixed_scope_data = [daily_tmp_record, weekly_record]
   \<and> known_scope daily_tmp_record \<and> \<not> known_scope weekly_record
   \<and> export_to_csv repr_unused all_writable auto_out_csv mixed_scope_data None True True
       Map.empty
       = (Inl TypeError, Map.empty)
   \<and> export_to_csv repr_unused all_writable auto_out_csv (without_other_scopes mixed_scope_data)
       None True True Map.empty
       = (Inr ''out/weather.csv'', Map.empty(out_csv \<mapsto> daily_only_file))"
proof -
  have h: "\<exists>r \<in> set (get_all_records mixed_scope_data). known_scope r"
    by (simp add: mixed_scope_data_known)
  have g1: "generate_weather_filename auto_out_csv mixed_scope_data = Inl TypeError"
    by (simp add: generate_weather_filename_def mixed_scope_data_known sorted_set_raises_def
          daily_tmp_record_def weekly_record_def)
  have g2: "generate_weather_filename auto_out_csv (without_other_scopes mixed_scope_data)
              = Inr out_csv"
    by (simp add: generate_weather_filename_def get_all_records_without mixed_scope_data_known
          sorted_set_raises_def daily_tmp_record_def auto_out_csv_def out_csv_def)
  have e1: "export_to_csv repr_unused all_writable auto_out_csv mixed_scope_data None True True
              Map.empty = (Inl TypeError, Map.empty)"
    by (simp add: export_to_csv_def g1)
  have e2: "export_to_csv repr_unused all_writable auto_out_csv
              (without_other_scopes mixed_scope_data) None True True Map.empty
            = (Inr ''out/weather.csv'', Map.empty(out_csv \<mapsto> daily_only_file))"
    by (simp add: export_to_csv_def g2 export_to_path_without_other_scopes[OF h]
          export_mixed_scope_data)
  from mixed_scope_data_known e1 e2 show ?thesis by simp
qed

text \<open>
  C10, amended. When \<^verbatim>\<open>export_to_csv\<close> is called with \<^verbatim>\<open>separate_daily_hourly\<close> true on data
  with at least one record of scope \<^verbatim>\<open>'daily'\<close> or \<^verbatim>\<open>'hourly'\<close>, the records of any other
  scope are left out once the file name is fixed: with a given file name, and with a
  generated one whenever the generation succeeds, the result (value or exception) and every
  file are those of the export, to that file name, of the data without these records; and
  in every case every line of every file written has \<^verbatim>\<open>'daily'\<close> or \<^verbatim>\<open>'hourly'\<close> in its
  \<^verbatim>\<open>Scope\<close> column, so no row belongs to such a record.
\<close>

theorem export_to_csv_other_scopes_omitted:
  assumes "\<exists>r \<in> set (get_all_records weather_data). known_scope r"
  shows "export_to_csv repr writable auto_name weather_data (Some path) include_all_columns
           True fs
           = export_to_csv repr writable auto_name (without_other_scopes weather_data)
               (Some path) include_all_columns True fs
       \<and> (generate_weather_filename auto_name weather_data = Inr path \<longrightarrow>
            export_to_csv repr writable auto_name weather_data None include_all_columns True fs
            = export_to_csv repr writable auto_name (without_other_scopes weather_data)
                (Some path) include_all_columns True fs)
       \<and> (\<forall>q f. snd (export_to_csv repr writable auto_name weather_data filename
                        include_all_columns True fs) q = Some f
                  \<longrightarrow> fs q = Some f \<or> scope_cells_known f)"
  using export_to_path_without_other_scopes[OF assms, of repr writable path fs]
    export_to_csv_scope_cells[OF assms, of repr writable auto_name filename
      include_all_columns fs]
  by (intro conjI allI impI) (simp_all add: export_to_csv_def)

theorem export_to_csv_other_scopes_omitted_witness:
  "(\<exists>r \<in> set (get_all_records mixed_scope_data). known_scope r)
   \<and> \<not> known_scope weekly_record \<and> weekly_record \<in> set (get_all_records mixed_scope_data)
   \<and> export_to_csv repr_unused all_writable auto_out_csv mixed_scope_data (Some out_csv)
         True True Map.empty
       = (Inr ''out/weather.csv'', Map.empty(out_csv \<mapsto> daily_only_file))
   \<and> export_to_csv repr_unused all_writable auto_out_csv (without_other_scopes mixed_scope_data)
         (Some out_csv) True True Map.empty
       = (Inr ''out/weather.csv'', Map.empty(out_csv \<mapsto> daily_only_file))
   \<and> scope_cells_known daily_only_file
   \<and> (\<exists>r \<in> set (get_all_records mixed_scope_dated_data). known_scope r)
   \<and> generate_weather_filename auto_out_csv mixed_scope_dated_data = Inr out_csv
   \<and> export_to_csv repr_unused all_writable auto_out_csv mixed_scope_dated_data None
         True True Map.empty
       = export_to_csv repr_unused all_writable auto_out_csv
           (without_other_scopes mixed_scope_dated_data) (Some out_csv) True True Map.empty"
proof -
  have h: "\<exists>r \<in> set (get_all_records mixed_scope_data). known_scope r"
    by (simp add: mixed_scope_data_known)
  have ex: "export_to_csv repr_unused all_writable auto_out_csv mixed_scope_data (Some out_csv)
              True True Map.empty
            = (Inr ''out/weather.csv'', Map.empty(out_csv \<mapsto> daily_only_file))"
    by (simp add: export_to_csv_def export_mixed_scope_data)
  note t = export_to_csv_other_scopes_omitted [OF h, where repr = repr_unused
             and writable = all_writable and auto_name = auto_out_csv and path = out_csv
             and include_all_columns = True and fs = Map.empty and filename = "Some out_csv"]
  from t ex
  have same: "export_to_csv repr_unused all_writable auto_out_csv
                (without_other_scopes mixed_scope_data) (Some out_csv) True True Map.empty
              = (Inr ''out/weather.csv'', Map.empty(out_csv \<mapsto> daily_only_file))"
    by simp
  from t have "snd (export_to_csv repr_unused all_writable auto_out_csv mixed_scope_data
                      (Some out_csv) True True Map.empty) out_csv = Some daily_only_file
               \<longrightarrow> Map.empty out_csv = Some daily_only_file \<or> scope_cells_known daily_only_file"
    by blast
  then have good: "scope_cells_known daily_only_file"
    by (simp add: ex)
  have recs': "get_all_records mixed_scope_dated_data = [daily_tmp_record, weekly_dated_record]"
    by (simp add: get_all_records_def mixed_scope_dated_data_def)
  have h': "\<exists>r \<in> set (get_all_records mixed_scope_dated_data). known_scope r"
    by (simp add: recs' mixed_scope_data_known)
  have g: "generate_weather_filename auto_out_csv mixed_scope_dated_data = Inr out_csv"
    by (simp add: generate_weather_filename_def recs' sorted_set_raises_def
          daily_tmp_record_def weekly_dated_record_def auto_out_csv_def out_csv_def)
  from export_to_csv_other_scopes_omitted [OF h', where repr = repr_unused
         and writable = all_writable and auto_name = auto_out_csv and path = out_csv
         and include_all_columns = True and fs = Map.empty and filename = None] g
  have gen: "export_to_csv repr_unused all_writable auto_out_csv mixed_scope_dated_data None
               True True Map.empty
             = export_to_csv repr_unused all_writable auto_out_csv
                 (without_other_scopes mixed_scope_dated_data) (Some out_csv) True True Map.empty"
    by blast
  from h mixed_scope_data_known ex same good h' g gen show ?thesis by simp
qed

section \<open>Item keys with the same cleaned name\<close>

lemma datetime_full_0130:
  "datetime_full repr (JStr ''2023-01-01'') (JStr ''0130'') = Inr (JStr ''2023-01-01T01:30:00'')"
  using datetime_full_wellformed[OF strptime_ymd_2023_01_01,
          of "CHR ''0''" "CHR ''1''" "CHR ''3''" "CHR ''0''" repr]
  by (simp add: is_digit_def digits_val_def digit_val_def dec4_def dec2_def digit_char_def)

lemma datetime_full_0230:
  "datetime_full repr (JStr ''2023-01-01'') (JStr ''0230'') = Inr (JStr ''2023-01-01T02:30:00'')"
  using datetime_full_wellformed[OF strptime_ymd_2023_01_01,
          of "CHR ''0''" "CHR ''2''" "CHR ''3''" "CHR ''0''" repr]
  by (simp add: is_digit_def digits_val_def digit_val_def dec4_def dec2_def digit_char_def)

lemma sorted_items_colliding:
  "st = ''hourly'' \<or> st = ''mixed'' \<Longrightarrow>
   sorted_data_items st [both_keys_record, untagged_only_record] = [''AirTmp'', ''HlyAirTmp'']"
  by (auto simp: sorted_data_items_code both_keys_record_def untagged_only_record_def
        keep_hourly_def startswith_def)

lemma all_columns_colliding:
  "st = ''hourly'' \<or> st = ''mixed'' \<Longrightarrow>
   all_columns st [both_keys_record, untagged_only_record]
     = [''Provider_Name'', ''Provider_Type'', ''Date'', ''Julian'', ''Station'', ''Standard'',
        ''ZipCodes'', ''Scope'', ''DateTime_Object'', ''Hour'', ''DateTime_Full'',
        ''AirTmp_Value'', ''AirTmp_QC'', ''AirTmp_Unit'',
        ''AirTmp_Value'', ''AirTmp_QC'', ''AirTmp_Unit'']"
  by (auto simp: all_columns_def base_columns_def sorted_items_colliding
        data_columns_def item_columns_def clean_item_name_def startswith_def)

lemma build_row_both_keys:
  "build_row repr
     [''Provider_Name'', ''Provider_Type'', ''Date'', ''Julian'', ''Station'', ''Standard'',
      ''ZipCodes'', ''Scope'', ''DateTime_Object'', ''Hour'', ''DateTime_Full'',
      ''AirTmp_Value'', ''AirTmp_QC'', ''AirTmp_Unit'',
      ''AirTmp_Value'', ''AirTmp_QC'', ''AirTmp_Unit'']
     [''AirTmp'', ''HlyAirTmp''] p both_keys_record
   = Inr [(''Provider_Name'', name p), (''Provider_Type'', type p),
          (''Date'', JStr ''2023-01-01''), (''Julian'', JStr ''1''), (''Station'', JStr ''2''),
          (''Standard'', JStr ''english''), (''ZipCodes'', JStr []),
          (''Scope'', JStr ''hourly''), (''DateTime_Object'', JStr ''2023-01-01T00:00:00''),
          (''Hour'', JStr ''0130''), (''DateTime_Full'', JStr ''2023-01-01T01:30:00''),
          (''AirTmp_Value'', JStr ''2''), (''AirTmp_QC'', JStr ''B''),
          (''AirTmp_Unit'', JStr ''(F)'')]"
  apply (simp add: build_row_def bindE_def both_keys_record_def datetime_object_2023_01_01
           hour_cells_def py_or_def datetime_full_0130 base_row_def)
  apply (simp add: add_item_def clean_item_name_def startswith_def py_or_def)
  done

lemma build_row_untagged_only:
  "build_row repr
     [''Provider_Name'', ''Provider_Type'', ''Date'', ''Julian'', ''Station'', ''Standard'',
      ''ZipCodes'', ''Scope'', ''DateTime_Object'', ''Hour'', ''DateTime_Full'',
      ''AirTmp_Value'', ''AirTmp_QC'', ''AirTmp_Unit'',
      ''AirTmp_Value'', ''AirTmp_QC'', ''AirTmp_Unit'']
     [''AirTmp'', ''HlyAirTmp''] p untagged_only_record
   = Inr [(''Provider_Name'', name p), (''Provider_Type'', type p),
          (''Date'', JStr ''2023-01-01''), (''Julian'', JStr ''1''), (''Station'', JStr ''2''),
          (''Standard'', JStr ''english''), (''ZipCodes'', JStr []),
          (''Scope'', JStr ''hourly''), (''DateTime_Object'', JStr ''2023-01-01T00:00:00''),
          (''Hour'', JStr ''0230''), (''DateTime_Full'', JStr ''2023-01-01T02:30:00''),
          (''AirTmp_Value'', JStr []), (''AirTmp_QC'', JStr []),
          (''AirTmp_Unit'', JStr [])]"
  apply (simp add: build_row_def bindE_def untagged_only_record_def datetime_object_2023_01_01
           hour_cells_def py_or_def datetime_full_0230 base_row_def)
  apply (simp add: add_item_def clean_item_name_def startswith_def py_or_def)
  done

lemma record_in_colliding:
  "record_in both_keys_record [both_keys_record, untagged_only_record]"
  "record_in untagged_only_record [both_keys_record, untagged_only_record]"
  by (simp_all add: record_in_def record_eq_def)

lemma export_records_colliding:
  assumes "st = ''hourly'' \<or> st = ''mixed''"
  shows "export_records_to_csv repr_unused all_writable colliding_data
           [both_keys_record, untagged_only_record] out_csv st Map.empty
     = (Inr ''out/weather.csv'',
        Map.empty(out_csv \<mapsto>
          \<lparr> header = [''Provider_Name'', ''Provider_Type'', ''Date'', ''Julian'', ''Station'',
                       ''Standard'', ''ZipCodes'', ''Scope'', ''DateTime_Object'', ''Hour'',
                       ''DateTime_Full'', ''AirTmp_Value'', ''AirTmp_QC'', ''AirTmp_Unit'',
                       ''AirTmp_Value'', ''AirTmp_QC'', ''AirTmp_Unit''],
            lines = [[JStr ''N'', JStr ''station'', JStr ''2023-01-01'', JStr ''1'', JStr ''2'',
                      JStr ''english'', JStr [], JStr ''hourly'', JStr ''2023-01-01T00:00:00'',
                      JStr ''0130'', JStr ''2023-01-01T01:30:00'',
                      JStr ''2'', JStr ''B'', JStr ''(F)'', JStr ''2'', JStr ''B'', JStr ''(F)''],
                     [JStr ''N'', JStr ''station'', JStr ''2023-01-01'', JStr ''1'', JStr ''2'',
                      JStr ''english'', JStr [], JStr ''hourly'', JStr ''2023-01-01T00:00:00'',
                      JStr ''0230'', JStr ''2023-01-01T02:30:00'',
                      JStr [], JStr [], JStr [], JStr [], JStr [], JStr []]] \<rparr>))"
  unfolding export_records_to_csv_def Let_def all_columns_colliding[OF assms]
    sorted_items_colliding[OF assms]
  by (simp add: all_writable_def colliding_data_def build_row_both_keys record_in_colliding
        build_row_untagged_only bindE_def writerow_def dict_get_def path_str_def out_csv_def)

text \<open>
  C9. There are records with the two retained item keys \<^verbatim>\<open>AirTmp\<close> and \<^verbatim>\<open>HlyAirTmp\<close>,
  exported in one file (hourly mode, and the same in mixed mode and with a generated file
  name), for which stripping the
  \<^verbatim>\<open>Hly\<close> prefix gives both keys the cleaned name \<^verbatim>\<open>AirTmp\<close>: the header holds the
  triple \<^verbatim>\<open>AirTmp_Value, AirTmp_QC, AirTmp_Unit\<close> twice, and in each line both triples
  hold the values of the later key \<^verbatim>\<open>HlyAirTmp\<close> (empty strings where the record lacks
  it), which replaced those of \<^verbatim>\<open>AirTmp\<close>.
\<close>

theorem hly_prefix_collision:
  "sorted_data_items ''hourly'' [both_keys_record, untagged_only_record]
     = [''AirTmp'', ''HlyAirTmp'']
   \<and> clean_item_name ''AirTmp'' = ''AirTmp'' \<and> clean_item_name ''HlyAirTmp'' = ''AirTmp''
   \<and> map_of (data_values both_keys_record) ''AirTmp''
       = Some \<lparr> value = JStr ''1'', qc = JStr ''A'', unit = JStr ''(C)'' \<rparr>
   \<and> map_of (data_values both_keys_record) ''HlyAirTmp''
       = Some \<lparr> value = JStr ''2'', qc = JStr ''B'', unit = JStr ''(F)'' \<rparr>
   \<and> map_of (data_values untagged_only_record) ''AirTmp''
       = Some \<lparr> value = JStr ''3'', qc = JStr ''A'', unit = JStr ''(C)'' \<rparr>
   \<and> map_of (data_values untagged_only_record) ''HlyAirTmp'' = None
   \<and> export_to_csv repr_unused all_writable auto_out_csv colliding_data (Some out_csv) True
       True Map.empty
     = (Inr ''out/weather.csv'',
        Map.empty(out_csv \<mapsto>
          \<lparr> header = [''Provider_Name'', ''Provider_Type'', ''Date'', ''Julian'', ''Station'',
                       ''Standard'', ''ZipCodes'', ''Scope'', ''DateTime_Object'', ''Hour'',
                       ''DateTime_Full'', ''AirTmp_Value'', ''AirTmp_QC'', ''AirTmp_Unit'',
                       ''AirTmp_Value'', ''AirTmp_QC'', ''AirTmp_Unit''],
            lines = [[JStr ''N'', JStr ''station'', JStr ''2023-01-01'', JStr ''1'', JStr ''2'',
                      JStr ''english'', JStr [], JStr ''hourly'', JStr ''2023-01-01T00:00:00'',
                      JStr ''0130'', JStr ''2023-01-01T01:30:00'',
                      JStr ''2'', JStr ''B'', JStr ''(F)'', JStr ''2'', JStr ''B'', JStr ''(F)''],
                     [JStr ''N'', JStr ''station'', JStr ''2023-01-01'', JStr ''1'', JStr ''2'',
                      JStr ''english'', JStr [], JStr ''hourly'', JStr ''2023-01-01T00:00:00'',
                      JStr ''0230'', JStr ''2023-01-01T02:30:00'',
                      JStr [], JStr [], JStr [], JStr [], JStr [], JStr []]] \<rparr>))
   \<and> export_to_csv repr_unused all_writable auto_out_csv colliding_data (Some out_csv) True
       False Map.empty
     = export_to_csv repr_unused all_writable auto_out_csv colliding_data (Some out_csv) True
         True Map.empty
   \<and> export_to_csv repr_unused all_writable auto_out_csv colliding_data None True True
       Map.empty
     = export_to_csv repr_unused all_writable auto_out_csv colliding_data (Some out_csv) True
         True Map.empty"
proof -
  have recs: "get_all_records colliding_data = [both_keys_record, untagged_only_record]"
    by (simp add: get_all_records_def colliding_data_def)
  have sc: "scope both_keys_record = JStr ''hourly''" "scope untagged_only_record = JStr ''hourly''"
    by (simp_all add: both_keys_record_def untagged_only_record_def)
  have h: "''hourly'' = ''hourly'' \<or> ''hourly'' = ''mixed''"
    and m: "''mixed'' = ''hourly'' \<or> ''mixed'' = ''mixed''" by simp_all
  have e1: "export_to_csv repr_unused all_writable auto_out_csv colliding_data (Some out_csv)
              True True Map.empty
     = export_records_to_csv repr_unused all_writable colliding_data
           [both_keys_record, untagged_only_record] out_csv ''hourly'' Map.empty"
    by (simp add: export_to_csv_def export_to_path_def Let_def recs sc)
  have e2: "export_to_csv repr_unused all_writable auto_out_csv colliding_data (Some out_csv)
              True False Map.empty
     = export_records_to_csv repr_unused all_writable colliding_data
           [both_keys_record, untagged_only_record] out_csv ''mixed'' Map.empty"
    by (simp add: export_to_csv_def export_to_path_def Let_def recs sc)
  have dv: "map_of (data_values both_keys_record) ''AirTmp''
       = Some \<lparr> value = JStr ''1'', qc = JStr ''A'', unit = JStr ''(C)'' \<rparr>"
    "map_of (data_values both_keys_record) ''HlyAirTmp''
       = Some \<lparr> value = JStr ''2'', qc = JStr ''B'', unit = JStr ''(F)'' \<rparr>"
    "map_of (data_values untagged_only_record) ''AirTmp''
       = Some \<lparr> value = JStr ''3'', qc = JStr ''A'', unit = JStr ''(C)'' \<rparr>"
    "map_of (data_values untagged_only_record) ''HlyAirTmp'' = None"
    by (simp_all add: both_keys_record_def untagged_only_record_def)
  have cl: "clean_item_name ''AirTmp'' = ''AirTmp''" "clean_item_name ''HlyAirTmp'' = ''AirTmp''"
    by (simp_all add: clean_item_name_def startswith_def)
  have g: "generate_weather_filename auto_out_csv colliding_data = Inr out_csv"
    by (simp add: generate_weather_filename_def recs sorted_set_raises_def
          both_keys_record_def untagged_only_record_def auto_out_csv_def out_csv_def)
  have e3: "export_to_csv repr_unused all_writable auto_out_csv colliding_data None True True
              Map.empty
     = export_records_to_csv repr_unused all_writable colliding_data
           [both_keys_record, untagged_only_record] out_csv ''hourly'' Map.empty"
    by (simp add: export_to_csv_def export_to_path_def g Let_def recs sc)
  show ?thesis
    unfolding e1 e2 e3 export_records_colliding[OF h] export_records_colliding[OF m]
    using sorted_items_colliding[OF h] dv cl by simp
qed


end
